theory Spec2Isabelle
  imports Main "HOL-Library.Sublist" "HOL-Library.Char_ord" "HOL-Library.List_Lexorder"
begin

section \<open>Attachment upload of the esa client (package esa)\<close>

text \<open>
  The repository holds two texts of the attachment service: \<^verbatim>\<open>src/esa/attachment.go\<close> and
  \<^verbatim>\<open>src/unnamed/part_000\<close>. They share the constants, the response types and
  \<^verbatim>\<open>postAttachmentPolicy\<close>, and differ in \<^verbatim>\<open>getFileInfo\<close> and
  \<^verbatim>\<open>UploadAttachmentFile\<close>. Both are embedded: a definition without suffix follows
  \<^verbatim>\<open>src/esa/attachment.go\<close>, a definition with the suffix \<open>_part000\<close> follows
  \<^verbatim>\<open>src/unnamed/part_000\<close>.

  A Go \<^verbatim>\<open>string\<close> and a \<^verbatim>\<open>[]byte\<close> are byte sequences, here \<^typ>\<open>string\<close> (a list of
  8-bit characters). A Go \<^verbatim>\<open>error\<close> is represented by its message, and a nil error, nil
  map, nil slice or nil pointer by \<^term>\<open>None\<close>.
\<close>

type_synonym bytes = string
type_synonym error = string

text \<open>\<^verbatim>\<open>url.Values\<close> is \<^verbatim>\<open>map[string][]string\<close>: an association list with distinct keys.\<close>

type_synonym Values = "(string \<times> string list) list"

definition LF :: string where
  "LF = [CHR 0x0A]"

definition CRLF :: string where
  "CRLF = [CHR 0x0D, CHR 0x0A]"

subsection \<open>Constants and response types\<close>

definition AttchmentPolicyURL :: string where
  "AttchmentPolicyURL = ''/attachments/policies''"

definition PolicyBodyType :: string where
  "PolicyBodyType = ''application/x-www-form-urlencoded''"

record AttachmentValue =
  Endpoint :: string
  Url :: string

record FormValue =
  AWSAccessKeyId :: string
  Signature :: string
  Policy :: string
  Key :: string
  ContentType :: string
  CacheControl :: string
  ContentDisposition :: string
  Acl :: string

record AttachmentPolicyResponse =
  Attachment :: AttachmentValue
  Form :: FormValue

subsection \<open>The outside world\<close>

text \<open>
  Every call that leaves the process is recorded as an event, with its arguments and with
  what the world answered. The world answers as a function of the events so far, so a file
  may read differently the second time it is opened, and a server may answer differently
  to each request.
\<close>

datatype event =
    FileOpen string "error option"
  | FileRead string bytes "error option"
  | FileClose string
  | PolicyPost string string bytes "error + AttachmentPolicyResponse"
  | PolicyBodyClose
  | UploadPost string string bytes "error + int"
  | UploadBodyClose

text \<open>
  \<^item> \<open>os_Open\<close>: \<^verbatim>\<open>os.Open(path)\<close>, the error or nil.
  \<^item> \<open>file_read\<close>: reading an open file to its end (\<^verbatim>\<open>ioutil.ReadAll\<close>, or the reads of
    \<^verbatim>\<open>io.Copy\<close>): the bytes read, and the error that stopped the reading, or nil at end of
    file. An error may come with the bytes read before it.
  \<^item> \<open>client_post\<close>: \<^verbatim>\<open>a.client.post(url, bodyType, body, &v)\<close> of the package's
    \<^verbatim>\<open>Client\<close>, which is not among the sources: the error, or the response decoded into
    \<^verbatim>\<open>v\<close>.
  \<^item> \<open>http_Post\<close>: \<^verbatim>\<open>a.client.Client.Post(url, contentType, body)\<close> of \<^verbatim>\<open>net/http\<close>: the
    error, or the status code of the response.
  \<^item> \<open>randomBoundary\<close>: the boundary \<^verbatim>\<open>multipart.NewWriter\<close> draws.
  \<^item> \<open>TeamURL\<close>: the package constant \<^verbatim>\<open>TeamURL\<close>, which is not among the sources.
  \<^item> \<open>DetectContentType\<close>: \<^verbatim>\<open>http.DetectContentType\<close>, a function of the bytes alone.
\<close>

record world =
  os_Open :: "event list \<Rightarrow> string \<Rightarrow> error option"
  file_read :: "event list \<Rightarrow> string \<Rightarrow> bytes \<times> error option"
  client_post :: "event list \<Rightarrow> string \<Rightarrow> string \<Rightarrow> bytes \<Rightarrow> error + AttachmentPolicyResponse"
  http_Post :: "event list \<Rightarrow> string \<Rightarrow> string \<Rightarrow> bytes \<Rightarrow> error + int"
  randomBoundary :: string
  TeamURL :: string
  DetectContentType :: "bytes \<Rightarrow> string"

subsection \<open>Standard library functions the code calls\<close>

text \<open>\<^verbatim>\<open>filepath.Base\<close> with the separator \<^verbatim>\<open>/\<close>.\<close>

definition Base :: "string \<Rightarrow> string" where
  "Base path =
     (if path = [] then ''.''
      else
        let stripped = rev (dropWhile (\<lambda>c. c = CHR ''/'') (rev path));
            elem = rev (takeWhile (\<lambda>c. c \<noteq> CHR ''/'') (rev stripped))
        in if elem = [] then ''/'' else elem)"

text \<open>\<^verbatim>\<open>fmt.Sprint\<close> of a non-negative \<^verbatim>\<open>int\<close>: its decimal digits.\<close>

definition digit :: "nat \<Rightarrow> char" where
  "digit d = char_of (48 + d)"

fun Sprint :: "nat \<Rightarrow> string" where
  "Sprint n = (if n < 10 then [digit n] else Sprint (n div 10) @ [digit (n mod 10)])"

declare Sprint.simps [simp del]

text \<open>\<^verbatim>\<open>url.QueryEscape\<close> and \<^verbatim>\<open>url.Values.Encode\<close>.\<close>

definition isAlnum :: "char \<Rightarrow> bool" where
  "isAlnum c =
     (let n = (of_char c :: nat)
      in (97 \<le> n \<and> n \<le> 122) \<or> (65 \<le> n \<and> n \<le> 90) \<or> (48 \<le> n \<and> n \<le> 57))"

definition shouldEscape :: "char \<Rightarrow> bool" where
  "shouldEscape c = (\<not> (isAlnum c \<or> c \<in> set ''-_.~''))"

definition upperhex :: "nat \<Rightarrow> char" where
  "upperhex n = ''0123456789ABCDEF'' ! (n mod 16)"

definition escapeByte :: "char \<Rightarrow> string" where
  "escapeByte c =
     (if c = CHR '' '' then ''+''
      else if shouldEscape c
        then [CHR ''%'', upperhex ((of_char c :: nat) div 16), upperhex ((of_char c :: nat) mod 16)]
      else [c])"

definition QueryEscape :: "string \<Rightarrow> string" where
  "QueryEscape s = concat (map escapeByte s)"

definition sortedKeys :: "(string \<times> 'a) list \<Rightarrow> (string \<times> 'a) list" where
  "sortedKeys m = sort_key fst m"

definition Encode :: "Values \<Rightarrow> string" where
  "Encode v =
     foldl (\<lambda>buf kv. (if buf \<noteq> [] then buf @ ''&'' else buf) @ kv) []
       (concat (map (\<lambda>(k, vs). map (\<lambda>x. QueryEscape k @ ''='' @ QueryEscape x) vs)
          (sortedKeys v)))"

text \<open>The verb \<^verbatim>\<open>%v\<close> of \<^verbatim>\<open>fmt\<close> on a \<^verbatim>\<open>url.Values\<close>: keys in sorted order.\<close>

fun joinWith :: "string \<Rightarrow> string list \<Rightarrow> string" where
  "joinWith sep [] = []"
| "joinWith sep [x] = x"
| "joinWith sep (x # y # ys) = x @ sep @ joinWith sep (y # ys)"

definition fmtValues :: "Values \<Rightarrow> string" where
  "fmtValues v =
     ''map['' @ joinWith '' '' (map (\<lambda>(k, vs). k @ '':['' @ joinWith '' '' vs @ '']'') (sortedKeys v))
       @ '']''"

text \<open>\<^verbatim>\<open>http.StatusText\<close>: the reason phrase of a status code, empty for an unknown code.\<close>

definition statusTextTable :: "(int \<times> string) list" where
  "statusTextTable =
     [(100, ''Continue''), (101, ''Switching Protocols''), (102, ''Processing''),
      (103, ''Early Hints''),
      (200, ''OK''), (201, ''Created''), (202, ''Accepted''),
      (203, ''Non-Authoritative Information''), (204, ''No Content''),
      (205, ''Reset Content''), (206, ''Partial Content''), (207, ''Multi-Status''),
      (208, ''Already Reported''), (226, ''IM Used''),
      (300, ''Multiple Choices''), (301, ''Moved Permanently''), (302, ''Found''),
      (303, ''See Other''), (304, ''Not Modified''), (305, ''Use Proxy''),
      (307, ''Temporary Redirect''), (308, ''Permanent Redirect''),
      (400, ''Bad Request''), (401, ''Unauthorized''), (402, ''Payment Required''),
      (403, ''Forbidden''), (404, ''Not Found''), (405, ''Method Not Allowed''),
      (406, ''Not Acceptable''), (407, ''Proxy Authentication Required''),
      (408, ''Request Timeout''), (409, ''Conflict''), (410, ''Gone''),
      (411, ''Length Required''), (412, ''Precondition Failed''),
      (413, ''Request Entity Too Large''), (414, ''Request URI Too Long''),
      (415, ''Unsupported Media Type''), (416, ''Requested Range Not Satisfiable''),
      (417, ''Expectation Failed''), (418, ''I'' @ [CHR 0x27] @ ''m a teapot''),
      (421, ''Misdirected Request''), (422, ''Unprocessable Entity''), (423, ''Locked''),
      (424, ''Failed Dependency''), (425, ''Too Early''), (426, ''Upgrade Required''),
      (428, ''Precondition Required''), (429, ''Too Many Requests''),
      (431, ''Request Header Fields Too Large''), (451, ''Unavailable For Legal Reasons''),
      (500, ''Internal Server Error''), (501, ''Not Implemented''), (502, ''Bad Gateway''),
      (503, ''Service Unavailable''), (504, ''Gateway Timeout''),
      (505, ''HTTP Version Not Supported''), (506, ''Variant Also Negotiates''),
      (507, ''Insufficient Storage''), (508, ''Loop Detected''), (510, ''Not Extended''),
      (511, ''Network Authentication Required'')]"

definition StatusText :: "int \<Rightarrow> string" where
  "StatusText code = (case map_of statusTextTable code of None \<Rightarrow> [] | Some s \<Rightarrow> s)"

definition StatusNoContent :: int where
  "StatusNoContent = 204"

subsection \<open>File inspection\<close>

text \<open>
  Each operation takes the events so far and returns its result with the events it adds.
  \<^verbatim>\<open>getFileInfo\<close> returns a Go tuple, so the model returns every component: a nil map or
  slice is \<^term>\<open>None\<close>.
\<close>

definition fileInfoValues :: "world \<Rightarrow> string \<Rightarrow> bytes \<Rightarrow> Values" where
  "fileInfoValues W path data =
     [(''type'', [DetectContentType W data]),
      (''name'', [Base path]),
      (''size'', [Sprint (length data)])]"

definition getFileInfo ::
  "world \<Rightarrow> event list \<Rightarrow> string \<Rightarrow> (Values option \<times> error option) \<times> event list" where
  "getFileInfo W h path =
     (let err = os_Open W h path;
          ev1 = [FileOpen path err]
      in case err of
           Some e \<Rightarrow> ((None, Some e), ev1)
         | None \<Rightarrow>
             (let (data, err) = file_read W (h @ ev1) path;
                  ev2 = ev1 @ [FileRead path data err]
              in case err of
                   Some e \<Rightarrow> ((None, Some e), ev2 @ [FileClose path])
                 | None \<Rightarrow> ((Some (fileInfoValues W path data), None), ev2 @ [FileClose path])))"

definition getFileInfo_part000 ::
  "world \<Rightarrow> event list \<Rightarrow> string
     \<Rightarrow> (Values option \<times> bytes option \<times> error option) \<times> event list" where
  "getFileInfo_part000 W h path =
     (let err = os_Open W h path;
          ev1 = [FileOpen path err]
      in case err of
           Some e \<Rightarrow> ((None, None, Some e), ev1)
         | None \<Rightarrow>
             (let (data, err) = file_read W (h @ ev1) path;
                  ev2 = ev1 @ [FileRead path data err]
              in case err of
                   Some e \<Rightarrow> ((None, None, Some e), ev2 @ [FileClose path])
                 | None \<Rightarrow>
                     ((Some (fileInfoValues W path data), Some data, None),
                      ev2 @ [FileClose path])))"

subsection \<open>Policy request\<close>

text \<open>A nil \<^verbatim>\<open>url.Values\<close> reads as the empty map, a nil \<^verbatim>\<open>[]byte\<close> as the empty slice.\<close>

definition valuesOf :: "Values option \<Rightarrow> Values" where
  "valuesOf v = (case v of None \<Rightarrow> [] | Some m \<Rightarrow> m)"

definition bytesOf :: "bytes option \<Rightarrow> bytes" where
  "bytesOf d = (case d of None \<Rightarrow> [] | Some b \<Rightarrow> b)"

definition postAttachmentPolicy ::
  "world \<Rightarrow> event list \<Rightarrow> string \<Rightarrow> Values
     \<Rightarrow> (error + AttachmentPolicyResponse) \<times> event list" where
  "postAttachmentPolicy W h teamName values =
     (let teamURL = TeamURL W @ ''/'' @ teamName @ AttchmentPolicyURL;
          data = Encode values;
          res = client_post W h teamURL PolicyBodyType data;
          ev = [PolicyPost teamURL PolicyBodyType data res]
      in case res of
           Inl err \<Rightarrow> (Inl err, ev)
         | Inr attachmentPolicyRes \<Rightarrow> (Inr attachmentPolicyRes, ev @ [PolicyBodyClose]))"

subsection \<open>The multipart encoder (\<^verbatim>\<open>mime/multipart.Writer\<close>)\<close>

text \<open>
  The writer appends to a \<^verbatim>\<open>bytes.Buffer\<close>, whose writes never fail. A part is known by its
  number; it is open while it is the writer's last part, and writing to a part that is no
  longer open is the only error of the encoder.
\<close>

record Writer =
  buf :: bytes
  boundary :: string
  lastpart :: "nat option"
  nparts :: nat

definition NewWriter :: "string \<Rightarrow> Writer" where
  "NewWriter b = \<lparr>buf = [], boundary = b, lastpart = None, nparts = 0\<rparr>"

definition headerLines :: "(string \<times> string list) list \<Rightarrow> bytes" where
  "headerLines header =
     concat (map (\<lambda>(k, vs). concat (map (\<lambda>v. k @ '': '' @ v @ CRLF) vs)) (sortedKeys header))"

definition CreatePart :: "Writer \<Rightarrow> (string \<times> string list) list \<Rightarrow> Writer \<times> (error + nat)" where
  "CreatePart w header =
     (let b = (if lastpart w \<noteq> None then CRLF @ ''--'' @ boundary w @ CRLF
               else ''--'' @ boundary w @ CRLF)
              @ headerLines header @ CRLF;
          p = nparts w
      in (w\<lparr>buf := buf w @ b, lastpart := Some p, nparts := Suc p\<rparr>, Inr p))"

text \<open>
  \<^verbatim>\<open>escapeQuotes\<close>: a backslash before each backslash and each double quote, and percent
  encoding for CR and LF. (Releases of the library up to Go 1.22 leave CR and LF as they
  are; the two agree on every name without CR and LF.)
\<close>

definition escapeQuotes :: "string \<Rightarrow> string" where
  "escapeQuotes s =
     concat (map (\<lambda>c. if c = CHR 0x5C then [CHR 0x5C, CHR 0x5C]
                       else if c = CHR 0x22 then [CHR 0x5C, CHR 0x22]
                       else if c = CHR 0x0D then ''%0D''
                       else if c = CHR 0x0A then ''%0A''
                       else [c]) s)"

definition CreateFormFile :: "Writer \<Rightarrow> string \<Rightarrow> string \<Rightarrow> Writer \<times> (error + nat)" where
  "CreateFormFile w fieldname filename =
     CreatePart w
       [(''Content-Disposition'',
           [''form-data; name='' @ [CHR 0x22] @ escapeQuotes fieldname @ [CHR 0x22]
              @ ''; filename='' @ [CHR 0x22] @ escapeQuotes filename @ [CHR 0x22]]),
        (''Content-Type'', [''application/octet-stream''])]"

definition CreateFormField :: "Writer \<Rightarrow> string \<Rightarrow> Writer \<times> (error + nat)" where
  "CreateFormField w fieldname =
     CreatePart w
       [(''Content-Disposition'',
           [''form-data; name='' @ [CHR 0x22] @ escapeQuotes fieldname @ [CHR 0x22]])]"

definition partWrite :: "Writer \<Rightarrow> nat \<Rightarrow> bytes \<Rightarrow> Writer \<times> error option" where
  "partWrite w p d =
     (if lastpart w = Some p then (w\<lparr>buf := buf w @ d\<rparr>, None)
      else (w, Some (''multipart: can'' @ [CHR 0x27] @ ''t write to finished part'')))"

definition WriteField :: "Writer \<Rightarrow> string \<Rightarrow> string \<Rightarrow> Writer \<times> error option" where
  "WriteField w fieldname v =
     (case CreateFormField w fieldname of
        (w1, Inl err) \<Rightarrow> (w1, Some err)
      | (w1, Inr p) \<Rightarrow> partWrite w1 p v)"

definition Close :: "Writer \<Rightarrow> Writer \<times> error option" where
  "Close w =
     (w\<lparr>buf := buf w @ CRLF @ ''--'' @ boundary w @ ''--'' @ CRLF, lastpart := None\<rparr>, None)"

definition FormDataContentType :: "Writer \<Rightarrow> string" where
  "FormDataContentType w =
     (let b = boundary w;
          b = (if \<exists>c \<in> set b. c \<in> set (''()<>@,;:'' @ [CHR 0x5C, CHR 0x22] @ ''/[]?= '')
               then [CHR 0x22] @ b @ [CHR 0x22] else b)
      in ''multipart/form-data; boundary='' @ b)"

text \<open>
  \<^verbatim>\<open>io.Copy(part, src)\<close> once the source has given \<open>data\<close>: nothing is written when there
  are no bytes.
\<close>

definition copyTo :: "Writer \<Rightarrow> nat \<Rightarrow> bytes \<Rightarrow> Writer \<times> error option" where
  "copyTo w p data = (if data = [] then (w, None) else partWrite w p data)"

text \<open>
  \<^verbatim>\<open>io.Copy(part, f)\<close> from an open file: the file is read to its end or to its first error,
  what was read is written to the part, and a write error goes before a read error.
\<close>

definition io_Copy ::
  "world \<Rightarrow> event list \<Rightarrow> Writer \<Rightarrow> nat \<Rightarrow> string \<Rightarrow> (Writer \<times> error option) \<times> event list" where
  "io_Copy W h w p path =
     (let (data, rerr) = file_read W h path;
          (w1, werr) = copyTo w p data
      in ((w1, case werr of Some e \<Rightarrow> Some e | None \<Rightarrow> rerr), [FileRead path data rerr]))"

subsection \<open>The upload\<close>

text \<open>
  The eight \<^verbatim>\<open>w.WriteField\<close> calls, the same lines in both files; the source drops the error
  of each.
\<close>

definition writePolicyFields :: "Writer \<Rightarrow> FormValue \<Rightarrow> Writer" where
  "writePolicyFields w form =
     (let (w, _) = WriteField w ''AWSAccessKeyId'' (AWSAccessKeyId form);
          (w, _) = WriteField w ''signature'' (Signature form);
          (w, _) = WriteField w ''policy'' (Policy form);
          (w, _) = WriteField w ''key'' (Key form);
          (w, _) = WriteField w ''Content-Type'' (ContentType form);
          (w, _) = WriteField w ''Cache-Control'' (CacheControl form);
          (w, _) = WriteField w ''Content-Disposition'' (ContentDisposition form);
          (w, _) = WriteField w ''acl'' (Acl form)
      in w)"

text \<open>
  \<^verbatim>\<open>UploadAttachmentFile\<close> of \<^verbatim>\<open>src/esa/attachment.go\<close>. It opens the file a second time
  after the policy request and copies from it; the deferred \<^verbatim>\<open>f.Close()\<close> and
  \<^verbatim>\<open>res.Body.Close()\<close> run at the return, last deferred first.
\<close>

definition UploadAttachmentFile ::
  "world \<Rightarrow> event list \<Rightarrow> string \<Rightarrow> string \<Rightarrow> (string \<times> error option) \<times> event list" where
  "UploadAttachmentFile W h teamName path =
     (case getFileInfo W h path of
        ((values, Some err), ev1) \<Rightarrow> (('''', Some err), ev1)
      | ((values, None), ev1) \<Rightarrow>
     (case postAttachmentPolicy W (h @ ev1) teamName (valuesOf values) of
        (Inl err, ev2) \<Rightarrow> (('''', Some err), ev1 @ ev2)
      | (Inr policy, ev2) \<Rightarrow>
     (let err = os_Open W (h @ ev1 @ ev2) path;
          ev3 = [FileOpen path err]
      in case err of
        Some e \<Rightarrow> (('''', Some e), ev1 @ ev2 @ ev3)
      | None \<Rightarrow>
     (let w = writePolicyFields (NewWriter (randomBoundary W)) (Form policy)
      in case CreateFormFile w ''file'' (Base path) of
        (w, Inl err) \<Rightarrow> (('''', Some err), ev1 @ ev2 @ ev3 @ [FileClose path])
      | (w, Inr part) \<Rightarrow>
     (case io_Copy W (h @ ev1 @ ev2 @ ev3) w part path of
        ((w, Some err), ev4) \<Rightarrow> (('''', Some err), ev1 @ ev2 @ ev3 @ ev4 @ [FileClose path])
      | ((w, None), ev4) \<Rightarrow>
     (case Close w of
        (w, Some err) \<Rightarrow> (('''', Some err), ev1 @ ev2 @ ev3 @ ev4 @ [FileClose path])
      | (w, None) \<Rightarrow>
     (let res = http_Post W (h @ ev1 @ ev2 @ ev3 @ ev4)
                  (Endpoint (Attachment policy)) (FormDataContentType w) (buf w);
          ev5 = [UploadPost (Endpoint (Attachment policy)) (FormDataContentType w) (buf w) res]
      in case res of
        Inl err \<Rightarrow> (('''', Some err), ev1 @ ev2 @ ev3 @ ev4 @ ev5 @ [FileClose path])
      | Inr StatusCode \<Rightarrow>
          if StatusCode \<noteq> StatusNoContent
          then (('''', Some (StatusText StatusCode)),
                ev1 @ ev2 @ ev3 @ ev4 @ ev5 @ [UploadBodyClose, FileClose path])
          else ((Url (Attachment policy), None),
                ev1 @ ev2 @ ev3 @ ev4 @ ev5 @ [UploadBodyClose, FileClose path]))))))))"

text \<open>
  \<^verbatim>\<open>UploadAttachmentFile\<close> of \<^verbatim>\<open>src/unnamed/part_000\<close>. It copies the bytes
  \<^verbatim>\<open>getFileInfo\<close> returned and wraps each error with \<^verbatim>\<open>fmt.Errorf\<close>. Its
  \<^verbatim>\<open>w.Close()\<close> is deferred: it runs when the function returns, after the request has
  been sent with the buffer as it stood, so the bytes it appends reach nobody and the
  function never calls \<^term>\<open>Close\<close> before \<^term>\<open>http_Post\<close>.
\<close>

definition UploadAttachmentFile_part000 ::
  "world \<Rightarrow> event list \<Rightarrow> string \<Rightarrow> string \<Rightarrow> (string \<times> error option) \<times> event list" where
  "UploadAttachmentFile_part000 W h teamName path =
     (case getFileInfo_part000 W h path of
        ((values, data, Some err), ev1) \<Rightarrow>
          (('''', Some (''getFileInfo Failed (path: '' @ path @ ''): '' @ err @ LF)), ev1)
      | ((values, data, None), ev1) \<Rightarrow>
     (case postAttachmentPolicy W (h @ ev1) teamName (valuesOf values) of
        (Inl err, ev2) \<Rightarrow>
          (('''', Some (''postAttachmentPolicy Failed (values: '' @ fmtValues (valuesOf values)
                        @ ''): '' @ err @ LF)),
           ev1 @ ev2)
      | (Inr policy, ev2) \<Rightarrow>
     (let w = writePolicyFields (NewWriter (randomBoundary W)) (Form policy)
      in case CreateFormFile w ''file'' (Base path) of
        (w, Inl err) \<Rightarrow> (('''', Some (''CreateFormFile Failed: '' @ err @ LF)), ev1 @ ev2)
      | (w, Inr file) \<Rightarrow>
     (case copyTo w file (bytesOf data) of
        (w, Some err) \<Rightarrow> (('''', Some (''Copy Failed: '' @ err @ LF)), ev1 @ ev2)
      | (w, None) \<Rightarrow>
     (let res = http_Post W (h @ ev1 @ ev2)
                  (Endpoint (Attachment policy)) (FormDataContentType w) (buf w);
          ev3 = [UploadPost (Endpoint (Attachment policy)) (FormDataContentType w) (buf w) res]
      in case res of
        Inl err \<Rightarrow>
          (('''', Some (''Post Failed (endpoint: '' @ Endpoint (Attachment policy) @ ''): ''
                        @ err @ LF)),
           ev1 @ ev2 @ ev3)
      | Inr StatusCode \<Rightarrow>
          if StatusCode \<noteq> StatusNoContent
          then (('''', Some (''HTTP status is not http.StatusNoContent: ''
                             @ StatusText StatusCode @ LF)),
                ev1 @ ev2 @ ev3 @ [UploadBodyClose])
          else ((Url (Attachment policy), None), ev1 @ ev2 @ ev3 @ [UploadBodyClose]))))))"

section \<open>Vocabulary of the properties\<close>

subsection \<open>The multipart/form-data encoding, as a format\<close>

text \<open>
  A body in this format is a sequence of parts, each after a delimiter line, closed by the
  terminating boundary. \<^term>\<open>encodeParts\<close> is the sequence without the terminating
  boundary, \<^term>\<open>multipartBody\<close> the complete encoding.
\<close>

definition delimiter :: "string \<Rightarrow> bytes" where
  "delimiter b = ''--'' @ b @ CRLF"

definition closeDelimiter :: "string \<Rightarrow> bytes" where
  "closeDelimiter b = CRLF @ ''--'' @ b @ ''--'' @ CRLF"

definition textPart :: "string \<Rightarrow> string \<Rightarrow> bytes" where
  "textPart name v =
     ''Content-Disposition: form-data; name='' @ [CHR 0x22] @ escapeQuotes name @ [CHR 0x22] @ CRLF
       @ CRLF @ v"

definition filePart :: "string \<Rightarrow> string \<Rightarrow> bytes \<Rightarrow> bytes" where
  "filePart name filename content =
     ''Content-Disposition: form-data; name='' @ [CHR 0x22] @ escapeQuotes name @ [CHR 0x22]
       @ ''; filename='' @ [CHR 0x22] @ escapeQuotes filename @ [CHR 0x22] @ CRLF
       @ ''Content-Type: application/octet-stream'' @ CRLF
       @ CRLF @ content"

fun encodeParts :: "string \<Rightarrow> bytes list \<Rightarrow> bytes" where
  "encodeParts b [] = []"
| "encodeParts b [p] = delimiter b @ p"
| "encodeParts b (p # q # ps) = delimiter b @ p @ CRLF @ encodeParts b (q # ps)"

definition multipartBody :: "string \<Rightarrow> bytes list \<Rightarrow> bytes" where
  "multipartBody b ps = encodeParts b ps @ closeDelimiter b"

text \<open>The eight text parts of the policy form, and the parts of an upload.\<close>

definition policyParts :: "FormValue \<Rightarrow> bytes list" where
  "policyParts form =
     [textPart ''AWSAccessKeyId'' (AWSAccessKeyId form),
      textPart ''signature'' (Signature form),
      textPart ''policy'' (Policy form),
      textPart ''key'' (Key form),
      textPart ''Content-Type'' (ContentType form),
      textPart ''Cache-Control'' (CacheControl form),
      textPart ''Content-Disposition'' (ContentDisposition form),
      textPart ''acl'' (Acl form)]"

definition uploadParts :: "AttachmentPolicyResponse \<Rightarrow> string \<Rightarrow> bytes \<Rightarrow> bytes list" where
  "uploadParts policy path content =
     policyParts (Form policy) @ [filePart ''file'' (Base path) content]"

text \<open>The content type of a writer depends on its boundary alone.\<close>

definition formDataContentType :: "string \<Rightarrow> string" where
  "formDataContentType b = FormDataContentType (NewWriter b)"

subsection \<open>Events of a run\<close>

text \<open>The events of an inspection that succeeds, and of a policy request that succeeds after it.\<close>

definition inspectionEvents :: "string \<Rightarrow> bytes \<Rightarrow> event list" where
  "inspectionEvents path data = [FileOpen path None, FileRead path data None, FileClose path]"

definition policyURL :: "world \<Rightarrow> string \<Rightarrow> string" where
  "policyURL W teamName = TeamURL W @ ''/'' @ teamName @ ''/attachments/policies''"

definition policyRequest ::
  "world \<Rightarrow> string \<Rightarrow> string \<Rightarrow> bytes \<Rightarrow> error + AttachmentPolicyResponse \<Rightarrow> event" where
  "policyRequest W teamName path data res =
     PolicyPost (policyURL W teamName) PolicyBodyType (Encode (fileInfoValues W path data)) res"

definition policyEvents ::
  "world \<Rightarrow> string \<Rightarrow> string \<Rightarrow> bytes \<Rightarrow> AttachmentPolicyResponse \<Rightarrow> event list" where
  "policyEvents W teamName path data policy =
     inspectionEvents path data @ [policyRequest W teamName path data (Inr policy), PolicyBodyClose]"

text \<open>
  The object-storage POST of each file, with what the world answers to it. In
  \<^verbatim>\<open>src/esa/attachment.go\<close> it comes after the second open and read of the file, and
  carries the bytes of that read.
\<close>

definition uploadRequest ::
  "world \<Rightarrow> event list \<Rightarrow> string \<Rightarrow> string \<Rightarrow> bytes \<Rightarrow> AttachmentPolicyResponse
     \<Rightarrow> bytes \<Rightarrow> event" where
  "uploadRequest W h teamName path data policy content =
     (let endpoint = Endpoint (Attachment policy);
          ctype = formDataContentType (randomBoundary W);
          body = multipartBody (randomBoundary W) (uploadParts policy path content)
      in UploadPost endpoint ctype body
           (http_Post W
              (h @ policyEvents W teamName path data policy
                 @ [FileOpen path None, FileRead path content None])
              endpoint ctype body))"

definition uploadRequest_part000 ::
  "world \<Rightarrow> event list \<Rightarrow> string \<Rightarrow> string \<Rightarrow> bytes \<Rightarrow> AttachmentPolicyResponse
     \<Rightarrow> event" where
  "uploadRequest_part000 W h teamName path data policy =
     (let endpoint = Endpoint (Attachment policy);
          ctype = formDataContentType (randomBoundary W);
          body = encodeParts (randomBoundary W) (uploadParts policy path data)
      in UploadPost endpoint ctype body
           (http_Post W (h @ policyEvents W teamName path data policy) endpoint ctype body))"

fun isPolicyPost :: "event \<Rightarrow> bool" where
  "isPolicyPost (PolicyPost u t b r) = True"
| "isPolicyPost _ = False"

fun isUploadPost :: "event \<Rightarrow> bool" where
  "isUploadPost (UploadPost u t b r) = True"
| "isUploadPost _ = False"

fun policyFailed :: "event \<Rightarrow> bool" where
  "policyFailed (PolicyPost u t b (Inl e)) = True"
| "policyFailed _ = False"

text \<open>The network requests of a run, in the order they were issued.\<close>

definition requests :: "event list \<Rightarrow> event list" where
  "requests evs = filter (\<lambda>e. isPolicyPost e \<or> isUploadPost e) evs"

text \<open>
  The order the requests may have: none, or the policy request alone, or a policy request
  that did not fail and then the object-storage POST.
\<close>

fun requestOrder :: "event list \<Rightarrow> bool" where
  "requestOrder [] = True"
| "requestOrder [p] = isPolicyPost p"
| "requestOrder [p, u] = (isPolicyPost p \<and> \<not> policyFailed p \<and> isUploadPost u)"
| "requestOrder _ = False"

text \<open>The number a string of decimal digits denotes.\<close>

definition decimalValue :: "string \<Rightarrow> nat" where
  "decimalValue s = foldl (\<lambda>a c. 10 * a + (of_char c - 48)) 0 s"

subsection \<open>Example worlds\<close>

definition exampleForm :: FormValue where
  "exampleForm =
     \<lparr>AWSAccessKeyId = ''AKIAEXAMPLE'', Signature = ''c2lnbmF0dXJl'', Policy = ''eyJwb2xpY3kifQ=='',
      Key = ''uploads/p/attachments/1/2026/11/01/1/hello.txt'', ContentType = ''text/plain'',
      CacheControl = ''max-age=31536000'', ContentDisposition = ''inline'',
      Acl = ''public-read''\<rparr>"

definition examplePolicy :: AttachmentPolicyResponse where
  "examplePolicy =
     \<lparr>Attachment = \<lparr>Endpoint = ''http://x/ep'', Url = ''http://x/pub/hello.txt''\<rparr>,
      Form = exampleForm\<rparr>"

definition exampleBoundary :: string where
  "exampleBoundary = ''0f1e2d3c4b5a69788796a5b4c3d2e1f00f1e2d3c4b5a69788796a5b4c3d2''"

text \<open>Every call succeeds: a file of ten bytes, a policy, and status 204.\<close>

definition exampleWorld :: world where
  "exampleWorld =
     \<lparr>os_Open = (\<lambda>h p. None),
      file_read = (\<lambda>h p. (''0123456789'', None)),
      client_post = (\<lambda>h u t b. Inr examplePolicy),
      http_Post = (\<lambda>h u t b. Inr 204),
      randomBoundary = exampleBoundary,
      TeamURL = ''/v1/teams'',
      DetectContentType = (\<lambda>d. ''text/plain; charset=utf-8'')\<rparr>"

definition worldOpenFails :: world where
  "worldOpenFails =
     exampleWorld\<lparr>os_Open := (\<lambda>h p. Some (''open '' @ p @ '': no such file or directory''))\<rparr>"

definition worldReadFails :: world where
  "worldReadFails =
     exampleWorld\<lparr>file_read := (\<lambda>h p. (''01234'', Some (''read '' @ p @ '': input/output error'')))\<rparr>"

definition worldPolicyFails :: world where
  "worldPolicyFails = exampleWorld\<lparr>client_post := (\<lambda>h u t b. Inl ''404 Not Found'')\<rparr>"

definition worldPostFails :: world where
  "worldPostFails = exampleWorld\<lparr>http_Post := (\<lambda>h u t b. Inl ''connection refused'')\<rparr>"

text \<open>The file can no longer be opened after the policy request.\<close>

definition worldSecondOpenFails :: world where
  "worldSecondOpenFails =
     exampleWorld\<lparr>os_Open :=
       (\<lambda>h p. if PolicyBodyClose \<in> set h then Some (''open '' @ p @ '': permission denied'')
              else None)\<rparr>"

text \<open>The second read of the file stops with an error.\<close>

definition worldSecondReadFails :: world where
  "worldSecondReadFails =
     exampleWorld\<lparr>file_read :=
       (\<lambda>h p. if PolicyBodyClose \<in> set h
              then (''0123'', Some (''read '' @ p @ '': input/output error''))
              else (''0123456789'', None))\<rparr>"

definition worldForbidden :: world where
  "worldForbidden = exampleWorld\<lparr>http_Post := (\<lambda>h u t b. Inr 403)\<rparr>"

text \<open>The file is rewritten after the policy request: it reads differently from then on.\<close>

definition worldFileChanges :: world where
  "worldFileChanges =
     exampleWorld\<lparr>file_read :=
       (\<lambda>h p. if PolicyBodyClose \<in> set h then (''rewritten'', None) else (''0123456789'', None))\<rparr>"

section \<open>Symbolic execution\<close>

lemma sortedKeys_single: "sortedKeys [x] = [x]"
  by (simp add: sortedKeys_def)

lemma sortedKeys_fileHeader:
  "sortedKeys [(''Content-Disposition'', a), (''Content-Type'', b)] =
     [(''Content-Disposition'', a), (''Content-Type'', b)]"
  by (simp add: sortedKeys_def)

lemma sortedKeys_fileInfoValues:
  "sortedKeys (fileInfoValues W path data) =
     [(''name'', [Base path]), (''size'', [Sprint (length data)]),
      (''type'', [DetectContentType W data])]"
  by (simp add: sortedKeys_def fileInfoValues_def)

lemma WriteField_eq:
  "WriteField w name v =
     (w\<lparr>buf := buf w @ (if lastpart w \<noteq> None then CRLF else []) @ delimiter (boundary w)
               @ textPart name v,
        lastpart := Some (nparts w), nparts := Suc (nparts w)\<rparr>, None)"
  by (simp add: WriteField_def CreateFormField_def CreatePart_def partWrite_def headerLines_def
      sortedKeys_single delimiter_def textPart_def Let_def)

lemma CreateFormFile_eq:
  "CreateFormFile w name filename =
     (w\<lparr>buf := buf w @ (if lastpart w \<noteq> None then CRLF else []) @ delimiter (boundary w)
               @ filePart name filename [],
        lastpart := Some (nparts w), nparts := Suc (nparts w)\<rparr>, Inr (nparts w))"
  by (simp add: CreateFormFile_def CreatePart_def headerLines_def
      sortedKeys_fileHeader delimiter_def filePart_def Let_def)

lemma writePolicyFields_eq:
  "writePolicyFields (NewWriter b) form =
     \<lparr>buf = encodeParts b (policyParts form), boundary = b, lastpart = Some 7, nparts = 8\<rparr>"
  by (simp add: writePolicyFields_def WriteField_eq NewWriter_def policyParts_def)

lemma copyTo_open: "lastpart w = Some p \<Longrightarrow> copyTo w p d = (w\<lparr>buf := buf w @ d\<rparr>, None)"
  by (simp add: copyTo_def partWrite_def)

lemma filePart_append: "filePart n f [] @ d = filePart n f d"
  by (simp add: filePart_def)

lemma encodeParts_snoc:
  "ps \<noteq> [] \<Longrightarrow> encodeParts b (ps @ [q]) = encodeParts b ps @ CRLF @ delimiter b @ q"
  by (induction b ps rule: encodeParts.induct) auto

lemma policyParts_nonempty: "policyParts form \<noteq> []"
  by (simp add: policyParts_def)

lemma FormDataContentType_boundary:
  "FormDataContentType w = formDataContentType (boundary w)"
  by (simp add: FormDataContentType_def formDataContentType_def NewWriter_def)

lemma getFileInfo_run:
  "getFileInfo W h path =
     (case os_Open W h path of
        Some e \<Rightarrow> ((None, Some e), [FileOpen path (Some e)])
      | None \<Rightarrow>
          (case file_read W (h @ [FileOpen path None]) path of
             (data, Some e) \<Rightarrow>
               ((None, Some e), [FileOpen path None, FileRead path data (Some e), FileClose path])
           | (data, None) \<Rightarrow>
               ((Some (fileInfoValues W path data), None), inspectionEvents path data)))"
  by (simp add: getFileInfo_def inspectionEvents_def Let_def split: option.splits prod.splits)

lemma getFileInfo_part000_run:
  "getFileInfo_part000 W h path =
     (case os_Open W h path of
        Some e \<Rightarrow> ((None, None, Some e), [FileOpen path (Some e)])
      | None \<Rightarrow>
          (case file_read W (h @ [FileOpen path None]) path of
             (data, Some e) \<Rightarrow>
               ((None, None, Some e),
                [FileOpen path None, FileRead path data (Some e), FileClose path])
           | (data, None) \<Rightarrow>
               ((Some (fileInfoValues W path data), Some data, None),
                inspectionEvents path data)))"
  by (simp add: getFileInfo_part000_def inspectionEvents_def Let_def split: option.splits prod.splits)

lemma postAttachmentPolicy_run:
  "postAttachmentPolicy W h teamName values =
     (case client_post W h (policyURL W teamName) PolicyBodyType (Encode values) of
        Inl e \<Rightarrow>
          (Inl e, [PolicyPost (policyURL W teamName) PolicyBodyType (Encode values) (Inl e)])
      | Inr policy \<Rightarrow>
          (Inr policy,
           [PolicyPost (policyURL W teamName) PolicyBodyType (Encode values) (Inr policy),
            PolicyBodyClose]))"
  by (simp add: postAttachmentPolicy_def policyURL_def AttchmentPolicyURL_def Let_def
      split: sum.splits)

lemma uploadParts_encode:
  "encodeParts b (uploadParts policy path content) =
     encodeParts b (policyParts (Form policy)) @ CRLF @ delimiter b
       @ filePart ''file'' (Base path) content"
  by (simp add: uploadParts_def encodeParts_snoc policyParts_nonempty)

lemma CreateFormFile_after_fields:
  "CreateFormFile (writePolicyFields (NewWriter b) (Form policy)) ''file'' (Base path) =
     (\<lparr>buf = encodeParts b (uploadParts policy path []), boundary = b,
        lastpart = Some 8, nparts = 9\<rparr>, Inr 8)"
  by (simp add: writePolicyFields_eq CreateFormFile_eq uploadParts_encode)

lemma copyTo_file_part:
  "copyTo \<lparr>buf = encodeParts b (uploadParts policy path []), boundary = b,
           lastpart = Some 8, nparts = 9\<rparr> 8 content =
     (\<lparr>buf = encodeParts b (uploadParts policy path content), boundary = b,
        lastpart = Some 8, nparts = 9\<rparr>, None)"
  by (simp add: copyTo_def partWrite_def uploadParts_encode filePart_def)

lemma Close_file_part:
  "Close \<lparr>buf = encodeParts b ps, boundary = b, lastpart = Some 8, nparts = 9\<rparr> =
     (\<lparr>buf = multipartBody b ps, boundary = b, lastpart = None, nparts = 9\<rparr>, None)"
  by (simp add: Close_def multipartBody_def closeDelimiter_def)

lemma UploadAttachmentFile_part000_run:
  "UploadAttachmentFile_part000 W h teamName path =
     (case os_Open W h path of
        Some e \<Rightarrow>
          (('''', Some (''getFileInfo Failed (path: '' @ path @ ''): '' @ e @ LF)),
           [FileOpen path (Some e)])
      | None \<Rightarrow>
     (case file_read W (h @ [FileOpen path None]) path of
        (data, Some e) \<Rightarrow>
          (('''', Some (''getFileInfo Failed (path: '' @ path @ ''): '' @ e @ LF)),
           [FileOpen path None, FileRead path data (Some e), FileClose path])
      | (data, None) \<Rightarrow>
     (case client_post W (h @ inspectionEvents path data) (policyURL W teamName) PolicyBodyType
             (Encode (fileInfoValues W path data)) of
        Inl e \<Rightarrow>
          (('''', Some (''postAttachmentPolicy Failed (values: ''
                        @ fmtValues (fileInfoValues W path data) @ ''): '' @ e @ LF)),
           inspectionEvents path data @ [policyRequest W teamName path data (Inl e)])
      | Inr policy \<Rightarrow>
     (let body = encodeParts (randomBoundary W) (uploadParts policy path data);
          ctype = formDataContentType (randomBoundary W);
          endpoint = Endpoint (Attachment policy);
          res = http_Post W (h @ policyEvents W teamName path data policy) endpoint ctype body;
          evs = policyEvents W teamName path data policy @ [UploadPost endpoint ctype body res]
      in case res of
        Inl e \<Rightarrow>
          (('''', Some (''Post Failed (endpoint: '' @ endpoint @ ''): '' @ e @ LF)), evs)
      | Inr code \<Rightarrow>
          if code \<noteq> 204
          then (('''', Some (''HTTP status is not http.StatusNoContent: '' @ StatusText code @ LF)),
                evs @ [UploadBodyClose])
          else ((Url (Attachment policy), None), evs @ [UploadBodyClose])))))"
  by (simp add: UploadAttachmentFile_part000_def getFileInfo_part000_run postAttachmentPolicy_run
      CreateFormFile_after_fields copyTo_file_part FormDataContentType_boundary
      valuesOf_def bytesOf_def policyEvents_def policyRequest_def StatusNoContent_def
      Let_def split: option.splits prod.splits sum.splits)

lemma io_Copy_file_part:
  "io_Copy W h \<lparr>buf = encodeParts b (uploadParts policy path []), boundary = b,
           lastpart = Some 8, nparts = 9\<rparr> 8 path =
     (case file_read W h path of
        (content, rerr) \<Rightarrow>
          ((\<lparr>buf = encodeParts b (uploadParts policy path content), boundary = b,
              lastpart = Some 8, nparts = 9\<rparr>, rerr), [FileRead path content rerr]))"
  by (simp add: io_Copy_def copyTo_file_part split: prod.splits)

lemma UploadAttachmentFile_run:
  "UploadAttachmentFile W h teamName path =
     (case os_Open W h path of
        Some e \<Rightarrow> (('''', Some e), [FileOpen path (Some e)])
      | None \<Rightarrow>
     (case file_read W (h @ [FileOpen path None]) path of
        (data, Some e) \<Rightarrow>
          (('''', Some e), [FileOpen path None, FileRead path data (Some e), FileClose path])
      | (data, None) \<Rightarrow>
     (case client_post W (h @ inspectionEvents path data) (policyURL W teamName) PolicyBodyType
             (Encode (fileInfoValues W path data)) of
        Inl e \<Rightarrow>
          (('''', Some e), inspectionEvents path data @ [policyRequest W teamName path data (Inl e)])
      | Inr policy \<Rightarrow>
     (let ev2 = policyEvents W teamName path data policy
      in case os_Open W (h @ ev2) path of
        Some e \<Rightarrow> (('''', Some e), ev2 @ [FileOpen path (Some e)])
      | None \<Rightarrow>
     (case file_read W (h @ ev2 @ [FileOpen path None]) path of
        (content, Some e) \<Rightarrow>
          (('''', Some e),
           ev2 @ [FileOpen path None, FileRead path content (Some e), FileClose path])
      | (content, None) \<Rightarrow>
     (let ev4 = ev2 @ [FileOpen path None, FileRead path content None];
          body = multipartBody (randomBoundary W) (uploadParts policy path content);
          ctype = formDataContentType (randomBoundary W);
          endpoint = Endpoint (Attachment policy);
          res = http_Post W (h @ ev4) endpoint ctype body;
          evs = ev4 @ [UploadPost endpoint ctype body res]
      in case res of
        Inl e \<Rightarrow> (('''', Some e), evs @ [FileClose path])
      | Inr code \<Rightarrow>
          if code \<noteq> 204
          then (('''', Some (StatusText code)), evs @ [UploadBodyClose, FileClose path])
          else ((Url (Attachment policy), None), evs @ [UploadBodyClose, FileClose path])))))))"
  by (simp add: UploadAttachmentFile_def getFileInfo_run postAttachmentPolicy_run
      CreateFormFile_after_fields io_Copy_file_part Close_file_part FormDataContentType_boundary
      valuesOf_def policyEvents_def policyRequest_def StatusNoContent_def
      Let_def split: option.splits prod.splits sum.splits)

lemma digit_value: "d < 10 \<Longrightarrow> (of_char (digit d) :: nat) = 48 + d"
  by (simp add: digit_def)

lemma decimalValue_snoc: "decimalValue (s @ [c]) = 10 * decimalValue s + (of_char c - 48)"
  by (simp add: decimalValue_def)

lemma decimalValue_Sprint: "decimalValue (Sprint n) = n"
proof (induction n rule: Sprint.induct)
  case (1 n)
  show ?case
  proof (cases "n < 10")
    case True
    then have "Sprint n = [digit n]" by (subst Sprint.simps) simp
    with True show ?thesis by (simp add: decimalValue_def digit_value del: Sprint.simps)
  next
    case False
    then have "Sprint n = Sprint (n div 10) @ [digit (n mod 10)]" by (subst Sprint.simps) simp
    with False 1 have "decimalValue (Sprint n) = 10 * (n div 10) + n mod 10"
      by (simp add: decimalValue_snoc digit_value del: Sprint.simps)
    then show ?thesis by simp
  qed
qed

lemma Base_no_separator:
  assumes "\<exists>c \<in> set path. c \<noteq> CHR ''/''"
  shows "CHR ''/'' \<notin> set (Base path)"
proof -
  let ?stripped = "rev (dropWhile (\<lambda>c. c = CHR ''/'') (rev path))"
  let ?elem = "rev (takeWhile (\<lambda>c. c \<noteq> CHR ''/'') (rev ?stripped))"
  from assms have ne: "dropWhile (\<lambda>c. c = CHR ''/'') (rev path) \<noteq> []"
    by (auto simp: dropWhile_eq_Nil_conv)
  then have "hd (dropWhile (\<lambda>c. c = CHR ''/'') (rev path)) \<noteq> CHR ''/''"
    using hd_dropWhile by blast
  with ne have "takeWhile (\<lambda>c. c \<noteq> CHR ''/'') (dropWhile (\<lambda>c. c = CHR ''/'') (rev path)) \<noteq> []"
    by (cases "dropWhile (\<lambda>c. c = CHR ''/'') (rev path)") auto
  then have "?elem \<noteq> []" by simp
  moreover have "CHR ''/'' \<notin> set ?elem"
    by (auto dest: set_takeWhileD)
  moreover from assms have "path \<noteq> []" by auto
  ultimately show ?thesis by (simp add: Base_def Let_def)
qed

lemma QueryEscape_keys:
  "QueryEscape ''name'' = ''name''" "QueryEscape ''size'' = ''size''"
  "QueryEscape ''type'' = ''type''"
  by (simp_all add: QueryEscape_def escapeByte_def shouldEscape_def isAlnum_def)

lemma Encode_fileInfoValues:
  "Encode (fileInfoValues W path data) =
     ''name='' @ QueryEscape (Base path) @ ''&size='' @ QueryEscape (Sprint (length data))
       @ ''&type='' @ QueryEscape (DetectContentType W data)"
  unfolding Encode_def sortedKeys_fileInfoValues
  by (simp add: QueryEscape_keys del: Sprint.simps)

section \<open>The runs of the two uploads\<close>

lemmas run_simps = inspectionEvents_def policyEvents_def policyRequest_def Let_def

text \<open>
  What each upload returns for a status other than 204, and what each sends.
\<close>

lemma other_status_attachment_go:
  assumes "UploadPost endpoint ctype body (Inr code)
             \<in> set (snd (UploadAttachmentFile W h teamName path))"
    and "code \<noteq> 204"
  shows "fst (UploadAttachmentFile W h teamName path) = ('''', Some (StatusText code))"
  using assms
  by (auto simp: UploadAttachmentFile_run run_simps
      split: option.splits prod.splits sum.splits if_splits)

lemma other_status_part000:
  assumes "UploadPost endpoint ctype body (Inr code)
             \<in> set (snd (UploadAttachmentFile_part000 W h teamName path))"
    and "code \<noteq> 204"
  shows "fst (UploadAttachmentFile_part000 W h teamName path) =
           ('''', Some (''HTTP status is not http.StatusNoContent: '' @ StatusText code @ LF))"
  using assms
  by (auto simp: UploadAttachmentFile_part000_run run_simps
      split: option.splits prod.splits sum.splits if_splits)

lemma attachment_go_posts_complete_body:
  assumes "UploadPost endpoint ctype body res
             \<in> set (snd (UploadAttachmentFile W h teamName path))"
  shows "\<exists>policy data content.
           snd (UploadAttachmentFile W h teamName path) =
             policyEvents W teamName path data policy
               @ [FileOpen path None, FileRead path content None,
                  UploadPost endpoint ctype body res]
               @ (case res of Inl e \<Rightarrow> [FileClose path]
                  | Inr code \<Rightarrow> [UploadBodyClose, FileClose path])
           \<and> endpoint = Endpoint (Attachment policy)
           \<and> ctype = formDataContentType (randomBoundary W)
           \<and> body = multipartBody (randomBoundary W) (uploadParts policy path content)"
  using assms
  by (auto simp: UploadAttachmentFile_run run_simps
      split: option.splits prod.splits sum.splits if_splits)

lemma part000_posts_unterminated_body:
  assumes "UploadPost endpoint ctype body res
             \<in> set (snd (UploadAttachmentFile_part000 W h teamName path))"
  shows "\<exists>policy data.
           snd (UploadAttachmentFile_part000 W h teamName path) =
             policyEvents W teamName path data policy
               @ [UploadPost endpoint ctype body res]
               @ (case res of Inl e \<Rightarrow> [] | Inr code \<Rightarrow> [UploadBodyClose])
           \<and> endpoint = Endpoint (Attachment policy)
           \<and> ctype = formDataContentType (randomBoundary W)
           \<and> body = encodeParts (randomBoundary W) (uploadParts policy path data)
           \<and> body @ closeDelimiter (randomBoundary W)
               = multipartBody (randomBoundary W) (uploadParts policy path data)
           \<and> body \<noteq> multipartBody (randomBoundary W) (uploadParts policy path data)"
  using assms
  by (auto simp: UploadAttachmentFile_part000_run run_simps multipartBody_def closeDelimiter_def
      split: option.splits prod.splits sum.splits if_splits)

lemma part000_uploads_inspected_bytes:
  assumes "UploadPost endpoint ctype body res
             \<in> set (snd (UploadAttachmentFile_part000 W h teamName path))"
  shows "\<exists>policy data.
           [e \<leftarrow> snd (UploadAttachmentFile_part000 W h teamName path). \<exists>p d r. e = FileRead p d r]
             = [FileRead path data None]
           \<and> PolicyPost (policyURL W teamName) PolicyBodyType
                (''name='' @ QueryEscape (Base path) @ ''&size='' @ QueryEscape (Sprint (length data))
                   @ ''&type='' @ QueryEscape (DetectContentType W data)) (Inr policy)
                \<in> set (snd (UploadAttachmentFile_part000 W h teamName path))
           \<and> body = encodeParts (randomBoundary W)
                      (policyParts (Form policy) @ [filePart ''file'' (Base path) data])"
  using assms
  by (auto simp: UploadAttachmentFile_part000_run run_simps Encode_fileInfoValues uploadParts_def
      split: option.splits prod.splits sum.splits if_splits)

subsection \<open>Runs in the example worlds\<close>

lemma Sprint_ten: "Sprint (length ''0123456789'') = ''10''"
  by code_simp

lemma Sprint_ten_Suc:
  "Sprint (Suc (Suc (Suc (Suc (Suc (Suc (Suc (Suc (Suc (Suc 0)))))))))) = ''10''"
  using Sprint_ten by simp

lemma Base_example: "Base ''dir/hello.txt'' = ''hello.txt''"
  by (simp add: Base_def)

lemma formDataContentType_example:
  "formDataContentType exampleBoundary =
     ''multipart/form-data; boundary=0f1e2d3c4b5a69788796a5b4c3d2e1f00f1e2d3c4b5a69788796a5b4c3d2''"
  by (simp add: formDataContentType_def FormDataContentType_def NewWriter_def exampleBoundary_def)

lemma fmtValues_fileInfoValues:
  "fmtValues (fileInfoValues W path data) =
     ''map[name:['' @ Base path @ ''] size:['' @ Sprint (length data) @ ''] type:[''
       @ DetectContentType W data @ '']]''"
  by (simp add: fmtValues_def sortedKeys_fileInfoValues)

lemma exampleWorld_run:
  "UploadAttachmentFile exampleWorld [] ''acme'' ''dir/hello.txt'' =
     ((''http://x/pub/hello.txt'', None),
      policyEvents exampleWorld ''acme'' ''dir/hello.txt'' ''0123456789'' examplePolicy
        @ [FileOpen ''dir/hello.txt'' None, FileRead ''dir/hello.txt'' ''0123456789'' None,
           UploadPost ''http://x/ep'' (formDataContentType exampleBoundary)
             (multipartBody exampleBoundary
                (uploadParts examplePolicy ''dir/hello.txt'' ''0123456789''))
             (Inr 204),
           UploadBodyClose, FileClose ''dir/hello.txt''])"
  by (simp add: UploadAttachmentFile_run exampleWorld_def examplePolicy_def Let_def)

lemma exampleWorld_run_part000:
  "UploadAttachmentFile_part000 exampleWorld [] ''acme'' ''dir/hello.txt'' =
     ((''http://x/pub/hello.txt'', None),
      policyEvents exampleWorld ''acme'' ''dir/hello.txt'' ''0123456789'' examplePolicy
        @ [UploadPost ''http://x/ep'' (formDataContentType exampleBoundary)
             (encodeParts exampleBoundary
                (uploadParts examplePolicy ''dir/hello.txt'' ''0123456789''))
             (Inr 204),
           UploadBodyClose])"
  by (simp add: UploadAttachmentFile_part000_run exampleWorld_def examplePolicy_def Let_def)

lemma worldForbidden_run:
  "UploadAttachmentFile worldForbidden [] ''acme'' ''dir/hello.txt'' =
     (('''', Some ''Forbidden''),
      policyEvents worldForbidden ''acme'' ''dir/hello.txt'' ''0123456789'' examplePolicy
        @ [FileOpen ''dir/hello.txt'' None, FileRead ''dir/hello.txt'' ''0123456789'' None,
           UploadPost ''http://x/ep'' (formDataContentType exampleBoundary)
             (multipartBody exampleBoundary
                (uploadParts examplePolicy ''dir/hello.txt'' ''0123456789''))
             (Inr 403),
           UploadBodyClose, FileClose ''dir/hello.txt''])"
  by (simp add: UploadAttachmentFile_run worldForbidden_def exampleWorld_def examplePolicy_def
      Let_def StatusText_def statusTextTable_def)

lemma worldForbidden_run_part000:
  "UploadAttachmentFile_part000 worldForbidden [] ''acme'' ''dir/hello.txt'' =
     (('''', Some (''HTTP status is not http.StatusNoContent: Forbidden'' @ LF)),
      policyEvents worldForbidden ''acme'' ''dir/hello.txt'' ''0123456789'' examplePolicy
        @ [UploadPost ''http://x/ep'' (formDataContentType exampleBoundary)
             (encodeParts exampleBoundary
                (uploadParts examplePolicy ''dir/hello.txt'' ''0123456789''))
             (Inr 403),
           UploadBodyClose])"
  by (simp add: UploadAttachmentFile_part000_run worldForbidden_def exampleWorld_def
      examplePolicy_def Let_def StatusText_def statusTextTable_def)

lemma worldOpenFails_run:
  "UploadAttachmentFile worldOpenFails [] ''acme'' ''dir/hello.txt'' =
     (('''', Some ''open dir/hello.txt: no such file or directory''),
      [FileOpen ''dir/hello.txt'' (Some ''open dir/hello.txt: no such file or directory'')])"
  by (simp add: UploadAttachmentFile_run worldOpenFails_def exampleWorld_def)

lemma worldOpenFails_run_part000:
  "UploadAttachmentFile_part000 worldOpenFails [] ''acme'' ''dir/hello.txt'' =
     (('''', Some (''getFileInfo Failed (path: dir/hello.txt): ''
                   @ ''open dir/hello.txt: no such file or directory'' @ LF)),
      [FileOpen ''dir/hello.txt'' (Some ''open dir/hello.txt: no such file or directory'')])"
  by (simp add: UploadAttachmentFile_part000_run worldOpenFails_def exampleWorld_def)

lemma worldPolicyFails_run:
  "UploadAttachmentFile worldPolicyFails [] ''acme'' ''dir/hello.txt'' =
     (('''', Some ''404 Not Found''),
      inspectionEvents ''dir/hello.txt'' ''0123456789''
        @ [policyRequest worldPolicyFails ''acme'' ''dir/hello.txt'' ''0123456789''
             (Inl ''404 Not Found'')])"
  by (simp add: UploadAttachmentFile_run worldPolicyFails_def exampleWorld_def)

lemma worldPolicyFails_run_part000:
  "UploadAttachmentFile_part000 worldPolicyFails [] ''acme'' ''dir/hello.txt'' =
     (('''', Some (''postAttachmentPolicy Failed (values: ''
                   @ ''map[name:[hello.txt] size:[10] type:[text/plain; charset=utf-8]]''
                   @ ''): 404 Not Found'' @ LF)),
      inspectionEvents ''dir/hello.txt'' ''0123456789''
        @ [policyRequest worldPolicyFails ''acme'' ''dir/hello.txt'' ''0123456789''
             (Inl ''404 Not Found'')])"
  by (simp add: UploadAttachmentFile_part000_run worldPolicyFails_def exampleWorld_def
      fmtValues_fileInfoValues Base_example Sprint_ten_Suc)

lemma worldFileChanges_run:
  "UploadAttachmentFile worldFileChanges [] ''acme'' ''dir/hello.txt'' =
     ((''http://x/pub/hello.txt'', None),
      [FileOpen ''dir/hello.txt'' None, FileRead ''dir/hello.txt'' ''0123456789'' None,
       FileClose ''dir/hello.txt'',
       PolicyPost ''/v1/teams/acme/attachments/policies'' ''application/x-www-form-urlencoded''
         ''name=hello.txt&size=10&type=text%2Fplain%3B+charset%3Dutf-8'' (Inr examplePolicy),
       PolicyBodyClose,
       FileOpen ''dir/hello.txt'' None, FileRead ''dir/hello.txt'' ''rewritten'' None,
       UploadPost ''http://x/ep''
         ''multipart/form-data; boundary=0f1e2d3c4b5a69788796a5b4c3d2e1f00f1e2d3c4b5a69788796a5b4c3d2''
         (multipartBody exampleBoundary
            (policyParts exampleForm @ [filePart ''file'' ''hello.txt'' ''rewritten'']))
         (Inr 204),
       UploadBodyClose, FileClose ''dir/hello.txt''])"
  by (simp add: UploadAttachmentFile_run worldFileChanges_def exampleWorld_def examplePolicy_def
      run_simps Encode_fileInfoValues policyURL_def PolicyBodyType_def uploadParts_def
      Base_example Sprint_ten_Suc formDataContentType_example
      QueryEscape_def escapeByte_def shouldEscape_def isAlnum_def upperhex_def)

lemma worldFileChanges_run_part000:
  "UploadAttachmentFile_part000 worldFileChanges [] ''acme'' ''dir/hello.txt'' =
     ((''http://x/pub/hello.txt'', None),
      [FileOpen ''dir/hello.txt'' None, FileRead ''dir/hello.txt'' ''0123456789'' None,
       FileClose ''dir/hello.txt'',
       PolicyPost ''/v1/teams/acme/attachments/policies'' ''application/x-www-form-urlencoded''
         ''name=hello.txt&size=10&type=text%2Fplain%3B+charset%3Dutf-8'' (Inr examplePolicy),
       PolicyBodyClose,
       UploadPost ''http://x/ep''
         ''multipart/form-data; boundary=0f1e2d3c4b5a69788796a5b4c3d2e1f00f1e2d3c4b5a69788796a5b4c3d2''
         (encodeParts exampleBoundary
            (policyParts exampleForm @ [filePart ''file'' ''hello.txt'' ''0123456789'']))
         (Inr 204),
       UploadBodyClose])"
  by (simp add: UploadAttachmentFile_part000_run worldFileChanges_def exampleWorld_def
      examplePolicy_def run_simps Encode_fileInfoValues policyURL_def PolicyBodyType_def
      uploadParts_def Base_example Sprint_ten_Suc formDataContentType_example
      QueryEscape_def escapeByte_def shouldEscape_def isAlnum_def upperhex_def)

lemma policy_failure_message_lacks_team:
  "\<not> sublist ''acme''
       (''postAttachmentPolicy Failed (values: ''
          @ ''map[name:[hello.txt] size:[10] type:[text/plain; charset=utf-8]]''
          @ ''): 404 Not Found'' @ LF)"
  by code_simp

lemma status_message_lacks_endpoint:
  "\<not> sublist ''http://x/ep'' (''HTTP status is not http.StatusNoContent: Forbidden'' @ LF)"
  by code_simp

section \<open>The claims\<close>

text \<open>
  Claim C1: the body POSTed to the object-storage endpoint is the complete
  multipart/form-data encoding, terminating boundary included, of the eight policy fields
  in order and then the file part, sent to \<open>policy.Attachment.Endpoint\<close> with the encoder's
  content type.

  \<^verbatim>\<open>src/esa/attachment.go\<close> does this (\<open>attachment_go_posts_complete_body\<close>: it calls
  \<^verbatim>\<open>w.Close()\<close> before the POST). \<^verbatim>\<open>src/unnamed/part_000\<close> defers \<^verbatim>\<open>w.Close()\<close> to the
  return of the function, so the body it sends stops after the file's bytes
  (\<open>part000_posts_unterminated_body\<close>). In the example world the sixth event of its run is
  the POST; the body is the encoding of the nine parts without the terminating boundary,
  it differs from the complete encoding and does not end with the closing delimiter, while
  the eighth event of the run of \<^verbatim>\<open>src/esa/attachment.go\<close> carries the complete encoding.
\<close>

theorem part000_body_lacks_terminating_boundary:
  "snd (UploadAttachmentFile_part000 exampleWorld [] ''acme'' ''dir/hello.txt'') ! 5 =
     UploadPost ''http://x/ep''
       ''multipart/form-data; boundary=0f1e2d3c4b5a69788796a5b4c3d2e1f00f1e2d3c4b5a69788796a5b4c3d2''
       (encodeParts exampleBoundary (uploadParts examplePolicy ''dir/hello.txt'' ''0123456789''))
       (Inr 204)
   \<and> encodeParts exampleBoundary (uploadParts examplePolicy ''dir/hello.txt'' ''0123456789'')
       \<noteq> multipartBody exampleBoundary (uploadParts examplePolicy ''dir/hello.txt'' ''0123456789'')
   \<and> \<not> suffix (closeDelimiter exampleBoundary)
         (encodeParts exampleBoundary (uploadParts examplePolicy ''dir/hello.txt'' ''0123456789''))
   \<and> snd (UploadAttachmentFile exampleWorld [] ''acme'' ''dir/hello.txt'') ! 7 =
     UploadPost ''http://x/ep''
       ''multipart/form-data; boundary=0f1e2d3c4b5a69788796a5b4c3d2e1f00f1e2d3c4b5a69788796a5b4c3d2''
       (multipartBody exampleBoundary (uploadParts examplePolicy ''dir/hello.txt'' ''0123456789''))
       (Inr 204)"
proof -
  let ?ps = "uploadParts examplePolicy ''dir/hello.txt'' ''0123456789''"
  have a: "snd (UploadAttachmentFile_part000 exampleWorld [] ''acme'' ''dir/hello.txt'') ! 5 =
     UploadPost ''http://x/ep'' (formDataContentType exampleBoundary)
       (encodeParts exampleBoundary ?ps) (Inr 204)"
    by (simp add: exampleWorld_run_part000 policyEvents_def inspectionEvents_def)
  have b: "snd (UploadAttachmentFile exampleWorld [] ''acme'' ''dir/hello.txt'') ! 7 =
     UploadPost ''http://x/ep'' (formDataContentType exampleBoundary)
       (multipartBody exampleBoundary ?ps) (Inr 204)"
    by (simp add: exampleWorld_run policyEvents_def inspectionEvents_def)
  have c: "encodeParts exampleBoundary ?ps \<noteq> multipartBody exampleBoundary ?ps"
    by (simp add: multipartBody_def closeDelimiter_def)
  have "encodeParts exampleBoundary ?ps =
      (encodeParts exampleBoundary (policyParts (Form examplePolicy)) @ CRLF
         @ delimiter exampleBoundary @ filePart ''file'' (Base ''dir/hello.txt'') ''012345678'')
      @ [CHR ''9'']"
    by (simp add: uploadParts_encode filePart_def)
  moreover have "closeDelimiter exampleBoundary =
      (CRLF @ ''--'' @ exampleBoundary @ ''--'' @ [CHR 0x0D]) @ [CHR 0x0A]"
    by (simp add: closeDelimiter_def CRLF_def)
  ultimately have d: "\<not> suffix (closeDelimiter exampleBoundary) (encodeParts exampleBoundary ?ps)"
    by (simp only: snoc_suffix_snoc) simp
  from a b c d show ?thesis by (simp add: formDataContentType_example)
qed

text \<open>
  Claim C2: when the object-storage POST completes with status 204, the upload returns
  exactly \<open>policy.Attachment.Url\<close> of the policy the policy request was answered with,
  and no error. Both files.
\<close>

theorem status_204_returns_policy_url:
  "(UploadPost endpoint ctype body (Inr 204) \<in> set (snd (UploadAttachmentFile W h teamName path))
      \<and> PolicyPost u t b (Inr policy) \<in> set (snd (UploadAttachmentFile W h teamName path))
    \<longrightarrow> fst (UploadAttachmentFile W h teamName path) = (Url (Attachment policy), None))
   \<and> (UploadPost endpoint ctype body (Inr 204)
          \<in> set (snd (UploadAttachmentFile_part000 W h teamName path))
      \<and> PolicyPost u t b (Inr policy) \<in> set (snd (UploadAttachmentFile_part000 W h teamName path))
    \<longrightarrow> fst (UploadAttachmentFile_part000 W h teamName path) = (Url (Attachment policy), None))"
  by (intro conjI impI; (elim conjE)?)
    (auto simp: UploadAttachmentFile_run UploadAttachmentFile_part000_run run_simps
      split: option.splits prod.splits sum.splits if_splits)

theorem status_204_returns_policy_url_witness:
  "UploadPost ''http://x/ep'' (formDataContentType exampleBoundary)
      (multipartBody exampleBoundary (uploadParts examplePolicy ''dir/hello.txt'' ''0123456789''))
      (Inr 204) \<in> set (snd (UploadAttachmentFile exampleWorld [] ''acme'' ''dir/hello.txt''))
   \<and> policyRequest exampleWorld ''acme'' ''dir/hello.txt'' ''0123456789'' (Inr examplePolicy)
        \<in> set (snd (UploadAttachmentFile exampleWorld [] ''acme'' ''dir/hello.txt''))
   \<and> fst (UploadAttachmentFile exampleWorld [] ''acme'' ''dir/hello.txt'')
        = (''http://x/pub/hello.txt'', None)
   \<and> UploadPost ''http://x/ep'' (formDataContentType exampleBoundary)
      (encodeParts exampleBoundary (uploadParts examplePolicy ''dir/hello.txt'' ''0123456789''))
      (Inr 204) \<in> set (snd (UploadAttachmentFile_part000 exampleWorld [] ''acme'' ''dir/hello.txt''))
   \<and> policyRequest exampleWorld ''acme'' ''dir/hello.txt'' ''0123456789'' (Inr examplePolicy)
        \<in> set (snd (UploadAttachmentFile_part000 exampleWorld [] ''acme'' ''dir/hello.txt''))
   \<and> fst (UploadAttachmentFile_part000 exampleWorld [] ''acme'' ''dir/hello.txt'')
        = (''http://x/pub/hello.txt'', None)"
proof -
  let ?p = "''dir/hello.txt''"
  let ?req = "policyRequest exampleWorld ''acme'' ?p ''0123456789'' (Inr examplePolicy)"
  have a: "UploadPost ''http://x/ep'' (formDataContentType exampleBoundary)
      (multipartBody exampleBoundary (uploadParts examplePolicy ?p ''0123456789''))
      (Inr 204) \<in> set (snd (UploadAttachmentFile exampleWorld [] ''acme'' ?p))"
    by (simp add: exampleWorld_run)
  have b: "?req \<in> set (snd (UploadAttachmentFile exampleWorld [] ''acme'' ?p))"
    by (simp add: exampleWorld_run policyEvents_def)
  have c: "UploadPost ''http://x/ep'' (formDataContentType exampleBoundary)
      (encodeParts exampleBoundary (uploadParts examplePolicy ?p ''0123456789''))
      (Inr 204) \<in> set (snd (UploadAttachmentFile_part000 exampleWorld [] ''acme'' ?p))"
    by (simp add: exampleWorld_run_part000)
  have d: "?req \<in> set (snd (UploadAttachmentFile_part000 exampleWorld [] ''acme'' ?p))"
    by (simp add: exampleWorld_run_part000 policyEvents_def)
  have url: "Url (Attachment examplePolicy) = ''http://x/pub/hello.txt''"
    by (simp add: examplePolicy_def)
  from a b have "fst (UploadAttachmentFile exampleWorld [] ''acme'' ?p)
      = (Url (Attachment examplePolicy), None)"
    using status_204_returns_policy_url
      [of "''http://x/ep''" "formDataContentType exampleBoundary"
          "multipartBody exampleBoundary (uploadParts examplePolicy ?p ''0123456789'')"
          exampleWorld "[]" "''acme''" ?p
          "policyURL exampleWorld ''acme''" PolicyBodyType
          "Encode (fileInfoValues exampleWorld ?p ''0123456789'')" examplePolicy]
    by (simp add: policyRequest_def)
  moreover from c d have "fst (UploadAttachmentFile_part000 exampleWorld [] ''acme'' ?p)
      = (Url (Attachment examplePolicy), None)"
    using status_204_returns_policy_url
      [of "''http://x/ep''" "formDataContentType exampleBoundary"
          "encodeParts exampleBoundary (uploadParts examplePolicy ?p ''0123456789'')"
          exampleWorld "[]" "''acme''" ?p
          "policyURL exampleWorld ''acme''" PolicyBodyType
          "Encode (fileInfoValues exampleWorld ?p ''0123456789'')" examplePolicy]
    by (simp add: policyRequest_def)
  ultimately show ?thesis using a b c d url by simp
qed

text \<open>
  Claim C3: when the object-storage POST completes with a status other than 204, the
  upload returns the empty string for the URL and an error whose message contains the
  status text of that code. Both files. For the code 403 the status text is \<open>Forbidden\<close>.
\<close>

theorem other_status_returns_error:
  "(UploadPost endpoint ctype body (Inr code) \<in> set (snd (UploadAttachmentFile W h teamName path))
      \<and> code \<noteq> 204
    \<longrightarrow> fst (fst (UploadAttachmentFile W h teamName path)) = ''''
        \<and> (\<exists>msg. snd (fst (UploadAttachmentFile W h teamName path)) = Some msg
                 \<and> sublist (StatusText code) msg))
   \<and> (UploadPost endpoint ctype body (Inr code)
          \<in> set (snd (UploadAttachmentFile_part000 W h teamName path))
      \<and> code \<noteq> 204
    \<longrightarrow> fst (fst (UploadAttachmentFile_part000 W h teamName path)) = ''''
        \<and> (\<exists>msg. snd (fst (UploadAttachmentFile_part000 W h teamName path)) = Some msg
                 \<and> sublist (StatusText code) msg))"
proof (intro conjI impI; elim conjE)
  assume "UploadPost endpoint ctype body (Inr code)
            \<in> set (snd (UploadAttachmentFile W h teamName path))" and "code \<noteq> 204"
  then have r: "fst (UploadAttachmentFile W h teamName path) = ('''', Some (StatusText code))"
    by (rule other_status_attachment_go)
  from r show "fst (fst (UploadAttachmentFile W h teamName path)) = ''''" by simp
  from r show "\<exists>msg. snd (fst (UploadAttachmentFile W h teamName path)) = Some msg
                 \<and> sublist (StatusText code) msg" by simp
next
  assume "UploadPost endpoint ctype body (Inr code)
            \<in> set (snd (UploadAttachmentFile_part000 W h teamName path))" and "code \<noteq> 204"
  then have r: "fst (UploadAttachmentFile_part000 W h teamName path) =
      ('''', Some (''HTTP status is not http.StatusNoContent: '' @ StatusText code @ LF))"
    by (rule other_status_part000)
  from r show "fst (fst (UploadAttachmentFile_part000 W h teamName path)) = ''''" by simp
  have "sublist (StatusText code)
          (''HTTP status is not http.StatusNoContent: '' @ StatusText code @ LF)"
    by (rule sublist_appendI)
  with r show "\<exists>msg. snd (fst (UploadAttachmentFile_part000 W h teamName path)) = Some msg
                 \<and> sublist (StatusText code) msg" by simp
qed

theorem other_status_returns_error_witness:
  "UploadPost ''http://x/ep'' (formDataContentType exampleBoundary)
      (multipartBody exampleBoundary (uploadParts examplePolicy ''dir/hello.txt'' ''0123456789''))
      (Inr 403) \<in> set (snd (UploadAttachmentFile worldForbidden [] ''acme'' ''dir/hello.txt''))
   \<and> fst (UploadAttachmentFile worldForbidden [] ''acme'' ''dir/hello.txt'')
        = ('''', Some ''Forbidden'')
   \<and> StatusText 403 = ''Forbidden''
   \<and> sublist (StatusText 403) ''Forbidden''
   \<and> UploadPost ''http://x/ep'' (formDataContentType exampleBoundary)
      (encodeParts exampleBoundary (uploadParts examplePolicy ''dir/hello.txt'' ''0123456789''))
      (Inr 403)
        \<in> set (snd (UploadAttachmentFile_part000 worldForbidden [] ''acme'' ''dir/hello.txt''))
   \<and> fst (UploadAttachmentFile_part000 worldForbidden [] ''acme'' ''dir/hello.txt'')
        = ('''', Some (''HTTP status is not http.StatusNoContent: Forbidden'' @ LF))
   \<and> sublist (StatusText 403) (''HTTP status is not http.StatusNoContent: Forbidden'' @ LF)"
proof -
  let ?p = "''dir/hello.txt''"
  have st: "StatusText 403 = ''Forbidden''"
    by (simp add: StatusText_def statusTextTable_def)
  have a: "UploadPost ''http://x/ep'' (formDataContentType exampleBoundary)
      (multipartBody exampleBoundary (uploadParts examplePolicy ?p ''0123456789''))
      (Inr 403) \<in> set (snd (UploadAttachmentFile worldForbidden [] ''acme'' ?p))"
    by (simp add: worldForbidden_run)
  have c: "UploadPost ''http://x/ep'' (formDataContentType exampleBoundary)
      (encodeParts exampleBoundary (uploadParts examplePolicy ?p ''0123456789''))
      (Inr 403) \<in> set (snd (UploadAttachmentFile_part000 worldForbidden [] ''acme'' ?p))"
    by (simp add: worldForbidden_run_part000)
  from a have "\<exists>msg. snd (fst (UploadAttachmentFile worldForbidden [] ''acme'' ?p)) = Some msg
      \<and> sublist (StatusText 403) msg"
    using other_status_returns_error
      [of "''http://x/ep''" "formDataContentType exampleBoundary"
          "multipartBody exampleBoundary (uploadParts examplePolicy ?p ''0123456789'')"
          403 worldForbidden "[]" "''acme''" ?p]
    by simp
  then have s1: "sublist (StatusText 403) ''Forbidden''"
    by (simp add: worldForbidden_run)
  from c have "\<exists>msg. snd (fst (UploadAttachmentFile_part000 worldForbidden [] ''acme'' ?p))
        = Some msg \<and> sublist (StatusText 403) msg"
    using other_status_returns_error
      [of "''http://x/ep''" "formDataContentType exampleBoundary"
          "encodeParts exampleBoundary (uploadParts examplePolicy ?p ''0123456789'')"
          403 worldForbidden "[]" "''acme''" ?p]
    by simp
  then have s2: "sublist (StatusText 403)
      (''HTTP status is not http.StatusNoContent: Forbidden'' @ LF)"
    by (simp add: worldForbidden_run_part000)
  show ?thesis
    using a c st s1 s2 by (simp add: worldForbidden_run worldForbidden_run_part000)
qed

text \<open>
  Claim C4: the stages run in sequence and a failure stops the run. The events of the
  inspection come first in the run and hold no network request; when the inspection
  fails the run ends with it. When the inspection succeeds the policy request is issued
  next; when that fails the run ends with it, and when it succeeds the object-storage
  POST follows: at once in \<^verbatim>\<open>src/unnamed/part_000\<close>, after the second open and read of
  the file in \<^verbatim>\<open>src/esa/attachment.go\<close>, where a failure of either ends the run without
  the POST. The requests of a run are none, or the policy request alone, or a policy
  request that did not fail followed by the object-storage POST. Both files.
\<close>

theorem stages_in_sequence:
  "prefix (snd (getFileInfo W h path)) (snd (UploadAttachmentFile W h teamName path))
   \<and> requests (snd (getFileInfo W h path)) = []
   \<and> (snd (fst (getFileInfo W h path)) \<noteq> None
        \<longrightarrow> snd (UploadAttachmentFile W h teamName path) = snd (getFileInfo W h path))
   \<and> requestOrder (requests (snd (UploadAttachmentFile W h teamName path)))
   \<and> prefix (snd (getFileInfo_part000 W h path)) (snd (UploadAttachmentFile_part000 W h teamName path))
   \<and> requests (snd (getFileInfo_part000 W h path)) = []
   \<and> (snd (snd (fst (getFileInfo_part000 W h path))) \<noteq> None
        \<longrightarrow> snd (UploadAttachmentFile_part000 W h teamName path)
            = snd (getFileInfo_part000 W h path))
   \<and> requestOrder (requests (snd (UploadAttachmentFile_part000 W h teamName path)))
   \<and> (os_Open W h path = None
      \<and> file_read W (h @ [FileOpen path None]) path = (data, None)
      \<and> client_post W (h @ inspectionEvents path data) (policyURL W teamName) PolicyBodyType
            (Encode (fileInfoValues W path data)) = Inl e
      \<longrightarrow> snd (UploadAttachmentFile W h teamName path)
            = inspectionEvents path data @ [policyRequest W teamName path data (Inl e)]
        \<and> snd (UploadAttachmentFile_part000 W h teamName path)
            = inspectionEvents path data @ [policyRequest W teamName path data (Inl e)])
   \<and> (os_Open W h path = None
      \<and> file_read W (h @ [FileOpen path None]) path = (data, None)
      \<and> client_post W (h @ inspectionEvents path data) (policyURL W teamName) PolicyBodyType
            (Encode (fileInfoValues W path data)) = Inr policy
      \<longrightarrow> prefix (policyEvents W teamName path data policy
                    @ [uploadRequest_part000 W h teamName path data policy])
                 (snd (UploadAttachmentFile_part000 W h teamName path))
        \<and> requests (snd (UploadAttachmentFile_part000 W h teamName path))
            = [policyRequest W teamName path data (Inr policy),
               uploadRequest_part000 W h teamName path data policy])
   \<and> (os_Open W h path = None
      \<and> file_read W (h @ [FileOpen path None]) path = (data, None)
      \<and> client_post W (h @ inspectionEvents path data) (policyURL W teamName) PolicyBodyType
            (Encode (fileInfoValues W path data)) = Inr policy
      \<and> os_Open W (h @ policyEvents W teamName path data policy) path = None
      \<and> file_read W (h @ policyEvents W teamName path data policy @ [FileOpen path None]) path
            = (content, None)
      \<longrightarrow> prefix (policyEvents W teamName path data policy
                    @ [FileOpen path None, FileRead path content None,
                       uploadRequest W h teamName path data policy content])
                 (snd (UploadAttachmentFile W h teamName path))
        \<and> requests (snd (UploadAttachmentFile W h teamName path))
            = [policyRequest W teamName path data (Inr policy),
               uploadRequest W h teamName path data policy content])
   \<and> (os_Open W h path = None
      \<and> file_read W (h @ [FileOpen path None]) path = (data, None)
      \<and> client_post W (h @ inspectionEvents path data) (policyURL W teamName) PolicyBodyType
            (Encode (fileInfoValues W path data)) = Inr policy
      \<and> os_Open W (h @ policyEvents W teamName path data policy) path = Some e
      \<longrightarrow> snd (UploadAttachmentFile W h teamName path)
            = policyEvents W teamName path data policy @ [FileOpen path (Some e)])
   \<and> (os_Open W h path = None
      \<and> file_read W (h @ [FileOpen path None]) path = (data, None)
      \<and> client_post W (h @ inspectionEvents path data) (policyURL W teamName) PolicyBodyType
            (Encode (fileInfoValues W path data)) = Inr policy
      \<and> os_Open W (h @ policyEvents W teamName path data policy) path = None
      \<and> file_read W (h @ policyEvents W teamName path data policy @ [FileOpen path None]) path
            = (content, Some e)
      \<longrightarrow> snd (UploadAttachmentFile W h teamName path)
            = policyEvents W teamName path data policy
                @ [FileOpen path None, FileRead path content (Some e), FileClose path])"
  apply (intro conjI impI; (elim conjE)?)
  apply (auto simp: UploadAttachmentFile_run UploadAttachmentFile_part000_run getFileInfo_run
      getFileInfo_part000_run requests_def run_simps uploadRequest_def uploadRequest_part000_def
      split: option.splits prod.splits sum.splits if_splits)
  done

theorem stages_in_sequence_witness:
  "snd (fst (getFileInfo worldOpenFails [] ''dir/hello.txt'')) \<noteq> None
   \<and> snd (snd (fst (getFileInfo_part000 worldOpenFails [] ''dir/hello.txt''))) \<noteq> None
   \<and> snd (UploadAttachmentFile worldOpenFails [] ''acme'' ''dir/hello.txt'') = snd (getFileInfo worldOpenFails [] ''dir/hello.txt'')
     \<and> snd (UploadAttachmentFile_part000 worldOpenFails [] ''acme'' ''dir/hello.txt'')
         = snd (getFileInfo_part000 worldOpenFails [] ''dir/hello.txt'')
   \<and> os_Open worldPolicyFails [] ''dir/hello.txt'' = None
   \<and> file_read worldPolicyFails ([] @ [FileOpen ''dir/hello.txt'' None]) ''dir/hello.txt'' = (''0123456789'', None)
   \<and> client_post worldPolicyFails ([] @ inspectionEvents ''dir/hello.txt'' ''0123456789'') (policyURL worldPolicyFails ''acme'') PolicyBodyType
        (Encode (fileInfoValues worldPolicyFails ''dir/hello.txt'' ''0123456789'')) = Inl ''404 Not Found''
   \<and> snd (UploadAttachmentFile worldPolicyFails [] ''acme'' ''dir/hello.txt'')
         = inspectionEvents ''dir/hello.txt'' ''0123456789'' @ [policyRequest worldPolicyFails ''acme'' ''dir/hello.txt'' ''0123456789'' (Inl ''404 Not Found'')]
     \<and> snd (UploadAttachmentFile_part000 worldPolicyFails [] ''acme'' ''dir/hello.txt'')
         = inspectionEvents ''dir/hello.txt'' ''0123456789'' @ [policyRequest worldPolicyFails ''acme'' ''dir/hello.txt'' ''0123456789'' (Inl ''404 Not Found'')]
   \<and> os_Open exampleWorld [] ''dir/hello.txt'' = None
   \<and> file_read exampleWorld ([] @ [FileOpen ''dir/hello.txt'' None]) ''dir/hello.txt'' = (''0123456789'', None)
   \<and> client_post exampleWorld ([] @ inspectionEvents ''dir/hello.txt'' ''0123456789'') (policyURL exampleWorld ''acme'') PolicyBodyType
        (Encode (fileInfoValues exampleWorld ''dir/hello.txt'' ''0123456789'')) = Inr examplePolicy
   \<and> requests (snd (UploadAttachmentFile_part000 exampleWorld [] ''acme'' ''dir/hello.txt''))
         = [policyRequest exampleWorld ''acme'' ''dir/hello.txt'' ''0123456789'' (Inr examplePolicy),
            uploadRequest_part000 exampleWorld [] ''acme'' ''dir/hello.txt'' ''0123456789'' examplePolicy]
   \<and> os_Open exampleWorld ([] @ policyEvents exampleWorld ''acme'' ''dir/hello.txt'' ''0123456789'' examplePolicy) ''dir/hello.txt'' = None
   \<and> file_read exampleWorld ([] @ policyEvents exampleWorld ''acme'' ''dir/hello.txt'' ''0123456789'' examplePolicy @ [FileOpen ''dir/hello.txt'' None]) ''dir/hello.txt''
        = (''0123456789'', None)
   \<and> requests (snd (UploadAttachmentFile exampleWorld [] ''acme'' ''dir/hello.txt''))
         = [policyRequest exampleWorld ''acme'' ''dir/hello.txt'' ''0123456789'' (Inr examplePolicy),
            uploadRequest exampleWorld [] ''acme'' ''dir/hello.txt'' ''0123456789'' examplePolicy ''0123456789'']
   \<and> os_Open worldSecondOpenFails [] ''dir/hello.txt'' = None
   \<and> file_read worldSecondOpenFails ([] @ [FileOpen ''dir/hello.txt'' None]) ''dir/hello.txt'' = (''0123456789'', None)
   \<and> client_post worldSecondOpenFails ([] @ inspectionEvents ''dir/hello.txt'' ''0123456789'') (policyURL worldSecondOpenFails ''acme'') PolicyBodyType
        (Encode (fileInfoValues worldSecondOpenFails ''dir/hello.txt'' ''0123456789'')) = Inr examplePolicy
   \<and> os_Open worldSecondOpenFails ([] @ policyEvents worldSecondOpenFails ''acme'' ''dir/hello.txt'' ''0123456789'' examplePolicy) ''dir/hello.txt''
        = Some ''open dir/hello.txt: permission denied''
   \<and> snd (UploadAttachmentFile worldSecondOpenFails [] ''acme'' ''dir/hello.txt'')
         = policyEvents worldSecondOpenFails ''acme'' ''dir/hello.txt'' ''0123456789'' examplePolicy @ [FileOpen ''dir/hello.txt'' (Some ''open dir/hello.txt: permission denied'')]
   \<and> os_Open worldSecondReadFails [] ''dir/hello.txt'' = None
   \<and> file_read worldSecondReadFails ([] @ [FileOpen ''dir/hello.txt'' None]) ''dir/hello.txt'' = (''0123456789'', None)
   \<and> client_post worldSecondReadFails ([] @ inspectionEvents ''dir/hello.txt'' ''0123456789'') (policyURL worldSecondReadFails ''acme'') PolicyBodyType
        (Encode (fileInfoValues worldSecondReadFails ''dir/hello.txt'' ''0123456789'')) = Inr examplePolicy
   \<and> os_Open worldSecondReadFails ([] @ policyEvents worldSecondReadFails ''acme'' ''dir/hello.txt'' ''0123456789'' examplePolicy) ''dir/hello.txt'' = None
   \<and> file_read worldSecondReadFails
        ([] @ policyEvents worldSecondReadFails ''acme'' ''dir/hello.txt'' ''0123456789'' examplePolicy @ [FileOpen ''dir/hello.txt'' None]) ''dir/hello.txt''
        = (''0123'', Some ''read dir/hello.txt: input/output error'')
   \<and> snd (UploadAttachmentFile worldSecondReadFails [] ''acme'' ''dir/hello.txt'')
         = policyEvents worldSecondReadFails ''acme'' ''dir/hello.txt'' ''0123456789'' examplePolicy
             @ [FileOpen ''dir/hello.txt'' None, FileRead ''dir/hello.txt'' ''0123'' (Some ''read dir/hello.txt: input/output error''), FileClose ''dir/hello.txt'']"
proof -
  have o1: "snd (fst (getFileInfo worldOpenFails [] ''dir/hello.txt'')) \<noteq> None"
    by (simp add: worldOpenFails_def worldPolicyFails_def worldSecondOpenFails_def worldSecondReadFails_def
        exampleWorld_def getFileInfo_run getFileInfo_part000_run policyEvents_def inspectionEvents_def)
  have o2: "snd (snd (fst (getFileInfo_part000 worldOpenFails [] ''dir/hello.txt''))) \<noteq> None"
    by (simp add: worldOpenFails_def worldPolicyFails_def worldSecondOpenFails_def worldSecondReadFails_def
        exampleWorld_def getFileInfo_run getFileInfo_part000_run policyEvents_def inspectionEvents_def)
  have p1: "os_Open worldPolicyFails [] ''dir/hello.txt'' = None"
    by (simp add: worldOpenFails_def worldPolicyFails_def worldSecondOpenFails_def worldSecondReadFails_def
        exampleWorld_def getFileInfo_run getFileInfo_part000_run policyEvents_def inspectionEvents_def)
  have p2: "file_read worldPolicyFails ([] @ [FileOpen ''dir/hello.txt'' None]) ''dir/hello.txt'' = (''0123456789'', None)"
    by (simp add: worldOpenFails_def worldPolicyFails_def worldSecondOpenFails_def worldSecondReadFails_def
        exampleWorld_def getFileInfo_run getFileInfo_part000_run policyEvents_def inspectionEvents_def)
  have p3: "client_post worldPolicyFails ([] @ inspectionEvents ''dir/hello.txt'' ''0123456789'') (policyURL worldPolicyFails ''acme'') PolicyBodyType
        (Encode (fileInfoValues worldPolicyFails ''dir/hello.txt'' ''0123456789'')) = Inl ''404 Not Found''"
    by (simp add: worldOpenFails_def worldPolicyFails_def worldSecondOpenFails_def worldSecondReadFails_def
        exampleWorld_def getFileInfo_run getFileInfo_part000_run policyEvents_def inspectionEvents_def)
  have e1: "os_Open exampleWorld [] ''dir/hello.txt'' = None"
    by (simp add: worldOpenFails_def worldPolicyFails_def worldSecondOpenFails_def worldSecondReadFails_def
        exampleWorld_def getFileInfo_run getFileInfo_part000_run policyEvents_def inspectionEvents_def)
  have e2: "file_read exampleWorld ([] @ [FileOpen ''dir/hello.txt'' None]) ''dir/hello.txt'' = (''0123456789'', None)"
    by (simp add: worldOpenFails_def worldPolicyFails_def worldSecondOpenFails_def worldSecondReadFails_def
        exampleWorld_def getFileInfo_run getFileInfo_part000_run policyEvents_def inspectionEvents_def)
  have e3: "client_post exampleWorld ([] @ inspectionEvents ''dir/hello.txt'' ''0123456789'') (policyURL exampleWorld ''acme'') PolicyBodyType
        (Encode (fileInfoValues exampleWorld ''dir/hello.txt'' ''0123456789'')) = Inr examplePolicy"
    by (simp add: worldOpenFails_def worldPolicyFails_def worldSecondOpenFails_def worldSecondReadFails_def
        exampleWorld_def getFileInfo_run getFileInfo_part000_run policyEvents_def inspectionEvents_def)
  have e4: "os_Open exampleWorld ([] @ policyEvents exampleWorld ''acme'' ''dir/hello.txt'' ''0123456789'' examplePolicy) ''dir/hello.txt'' = None"
    by (simp add: worldOpenFails_def worldPolicyFails_def worldSecondOpenFails_def worldSecondReadFails_def
        exampleWorld_def getFileInfo_run getFileInfo_part000_run policyEvents_def inspectionEvents_def)
  have e5: "file_read exampleWorld ([] @ policyEvents exampleWorld ''acme'' ''dir/hello.txt'' ''0123456789'' examplePolicy @ [FileOpen ''dir/hello.txt'' None]) ''dir/hello.txt''
        = (''0123456789'', None)"
    by (simp add: worldOpenFails_def worldPolicyFails_def worldSecondOpenFails_def worldSecondReadFails_def
        exampleWorld_def getFileInfo_run getFileInfo_part000_run policyEvents_def inspectionEvents_def)
  have s1: "os_Open worldSecondOpenFails [] ''dir/hello.txt'' = None"
    by (simp add: worldOpenFails_def worldPolicyFails_def worldSecondOpenFails_def worldSecondReadFails_def
        exampleWorld_def getFileInfo_run getFileInfo_part000_run policyEvents_def inspectionEvents_def)
  have s2: "file_read worldSecondOpenFails ([] @ [FileOpen ''dir/hello.txt'' None]) ''dir/hello.txt'' = (''0123456789'', None)"
    by (simp add: worldOpenFails_def worldPolicyFails_def worldSecondOpenFails_def worldSecondReadFails_def
        exampleWorld_def getFileInfo_run getFileInfo_part000_run policyEvents_def inspectionEvents_def)
  have s3: "client_post worldSecondOpenFails ([] @ inspectionEvents ''dir/hello.txt'' ''0123456789'') (policyURL worldSecondOpenFails ''acme'') PolicyBodyType
        (Encode (fileInfoValues worldSecondOpenFails ''dir/hello.txt'' ''0123456789'')) = Inr examplePolicy"
    by (simp add: worldOpenFails_def worldPolicyFails_def worldSecondOpenFails_def worldSecondReadFails_def
        exampleWorld_def getFileInfo_run getFileInfo_part000_run policyEvents_def inspectionEvents_def)
  have s4: "os_Open worldSecondOpenFails ([] @ policyEvents worldSecondOpenFails ''acme'' ''dir/hello.txt'' ''0123456789'' examplePolicy) ''dir/hello.txt''
        = Some ''open dir/hello.txt: permission denied''"
    by (simp add: worldOpenFails_def worldPolicyFails_def worldSecondOpenFails_def worldSecondReadFails_def
        exampleWorld_def getFileInfo_run getFileInfo_part000_run policyEvents_def inspectionEvents_def)
  have r1: "os_Open worldSecondReadFails [] ''dir/hello.txt'' = None"
    by (simp add: worldOpenFails_def worldPolicyFails_def worldSecondOpenFails_def worldSecondReadFails_def
        exampleWorld_def getFileInfo_run getFileInfo_part000_run policyEvents_def inspectionEvents_def)
  have r2: "file_read worldSecondReadFails ([] @ [FileOpen ''dir/hello.txt'' None]) ''dir/hello.txt'' = (''0123456789'', None)"
    by (simp add: worldOpenFails_def worldPolicyFails_def worldSecondOpenFails_def worldSecondReadFails_def
        exampleWorld_def getFileInfo_run getFileInfo_part000_run policyEvents_def inspectionEvents_def)
  have r3: "client_post worldSecondReadFails ([] @ inspectionEvents ''dir/hello.txt'' ''0123456789'') (policyURL worldSecondReadFails ''acme'') PolicyBodyType
        (Encode (fileInfoValues worldSecondReadFails ''dir/hello.txt'' ''0123456789'')) = Inr examplePolicy"
    by (simp add: worldOpenFails_def worldPolicyFails_def worldSecondOpenFails_def worldSecondReadFails_def
        exampleWorld_def getFileInfo_run getFileInfo_part000_run policyEvents_def inspectionEvents_def)
  have r4: "os_Open worldSecondReadFails ([] @ policyEvents worldSecondReadFails ''acme'' ''dir/hello.txt'' ''0123456789'' examplePolicy) ''dir/hello.txt'' = None"
    by (simp add: worldOpenFails_def worldPolicyFails_def worldSecondOpenFails_def worldSecondReadFails_def
        exampleWorld_def getFileInfo_run getFileInfo_part000_run policyEvents_def inspectionEvents_def)
  have r5: "file_read worldSecondReadFails
        ([] @ policyEvents worldSecondReadFails ''acme'' ''dir/hello.txt'' ''0123456789'' examplePolicy @ [FileOpen ''dir/hello.txt'' None]) ''dir/hello.txt''
        = (''0123'', Some ''read dir/hello.txt: input/output error'')"
    by (simp add: worldOpenFails_def worldPolicyFails_def worldSecondOpenFails_def worldSecondReadFails_def
        exampleWorld_def getFileInfo_run getFileInfo_part000_run policyEvents_def inspectionEvents_def)
  have co: "snd (UploadAttachmentFile worldOpenFails [] ''acme'' ''dir/hello.txt'') = snd (getFileInfo worldOpenFails [] ''dir/hello.txt'')
     \<and> snd (UploadAttachmentFile_part000 worldOpenFails [] ''acme'' ''dir/hello.txt'')
         = snd (getFileInfo_part000 worldOpenFails [] ''dir/hello.txt'')"
    using stages_in_sequence [where W = worldOpenFails and h = "[]" and teamName = "''acme''" and path = "''dir/hello.txt''"]
      o1 o2
    by blast
  have cp: "snd (UploadAttachmentFile worldPolicyFails [] ''acme'' ''dir/hello.txt'')
         = inspectionEvents ''dir/hello.txt'' ''0123456789'' @ [policyRequest worldPolicyFails ''acme'' ''dir/hello.txt'' ''0123456789'' (Inl ''404 Not Found'')]
     \<and> snd (UploadAttachmentFile_part000 worldPolicyFails [] ''acme'' ''dir/hello.txt'')
         = inspectionEvents ''dir/hello.txt'' ''0123456789'' @ [policyRequest worldPolicyFails ''acme'' ''dir/hello.txt'' ''0123456789'' (Inl ''404 Not Found'')]"
    using stages_in_sequence [where W = worldPolicyFails and h = "[]" and teamName = "''acme''" and path = "''dir/hello.txt''" and data = "''0123456789''" and e = "''404 Not Found''"]
      p1 p2 p3
    by blast
  have ce2: "requests (snd (UploadAttachmentFile_part000 exampleWorld [] ''acme'' ''dir/hello.txt''))
         = [policyRequest exampleWorld ''acme'' ''dir/hello.txt'' ''0123456789'' (Inr examplePolicy),
            uploadRequest_part000 exampleWorld [] ''acme'' ''dir/hello.txt'' ''0123456789'' examplePolicy]"
    using stages_in_sequence [where W = exampleWorld and h = "[]" and teamName = "''acme''" and path = "''dir/hello.txt''" and data = "''0123456789''" and policy = "examplePolicy"]
      e1 e2 e3
    by blast
  have ce1: "requests (snd (UploadAttachmentFile exampleWorld [] ''acme'' ''dir/hello.txt''))
         = [policyRequest exampleWorld ''acme'' ''dir/hello.txt'' ''0123456789'' (Inr examplePolicy),
            uploadRequest exampleWorld [] ''acme'' ''dir/hello.txt'' ''0123456789'' examplePolicy ''0123456789'']"
    using stages_in_sequence [where W = exampleWorld and h = "[]" and teamName = "''acme''" and path = "''dir/hello.txt''" and data = "''0123456789''" and policy = "examplePolicy" and content = "''0123456789''"]
      e1 e2 e3 e4 e5
    by blast
  have cs: "snd (UploadAttachmentFile worldSecondOpenFails [] ''acme'' ''dir/hello.txt'')
         = policyEvents worldSecondOpenFails ''acme'' ''dir/hello.txt'' ''0123456789'' examplePolicy @ [FileOpen ''dir/hello.txt'' (Some ''open dir/hello.txt: permission denied'')]"
    using stages_in_sequence [where W = worldSecondOpenFails and h = "[]" and teamName = "''acme''" and path = "''dir/hello.txt''" and data = "''0123456789''" and policy = "examplePolicy" and e = "''open dir/hello.txt: permission denied''"]
      s1 s2 s3 s4
    by blast
  have cr: "snd (UploadAttachmentFile worldSecondReadFails [] ''acme'' ''dir/hello.txt'')
         = policyEvents worldSecondReadFails ''acme'' ''dir/hello.txt'' ''0123456789'' examplePolicy
             @ [FileOpen ''dir/hello.txt'' None, FileRead ''dir/hello.txt'' ''0123'' (Some ''read dir/hello.txt: input/output error''), FileClose ''dir/hello.txt'']"
    using stages_in_sequence [where W = worldSecondReadFails and h = "[]" and teamName = "''acme''" and path = "''dir/hello.txt''" and data = "''0123456789''" and policy = "examplePolicy" and content = "''0123''" and e = "''read dir/hello.txt: input/output error''"]
      r1 r2 r3 r4 r5
    by blast
  from o1 o2 co p1 p2 p3 cp e1 e2 e3 ce2 e4 e5 ce1 s1 s2 s3 s4 cs r1 r2 r3 r4 r5 cr
  show ?thesis by blast
qed

text \<open>
  Claim C5: for a file that opens and reads to its end, \<open>getFileInfo\<close> returns the values
  \<open>size\<close>, the decimal digits of the number of bytes read, \<open>name\<close>, the base name of the
  path, which holds no separator, and \<open>type\<close>, what \<open>DetectContentType\<close> gives for the
  bytes read (a function of the bytes, not of the path). A path that names a file has a
  character other than the separator; for the path of the root directory the base name is
  the separator itself. Both files; \<^verbatim>\<open>src/unnamed/part_000\<close> also returns the bytes.
\<close>

theorem getFileInfo_metadata:
  assumes "os_Open W h path = None"
    and "file_read W (h @ [FileOpen path None]) path = (data, None)"
    and "\<exists>c \<in> set path. c \<noteq> CHR ''/''"
  shows "fst (getFileInfo W h path) = (Some (fileInfoValues W path data), None)
         \<and> fst (getFileInfo_part000 W h path) = (Some (fileInfoValues W path data), Some data, None)
         \<and> snd (getFileInfo W h path) = [FileOpen path None, FileRead path data None, FileClose path]
         \<and> snd (getFileInfo_part000 W h path) = snd (getFileInfo W h path)
         \<and> map_of (fileInfoValues W path data) ''size'' = Some [Sprint (length data)]
         \<and> decimalValue (Sprint (length data)) = length data
         \<and> map_of (fileInfoValues W path data) ''name'' = Some [Base path]
         \<and> CHR ''/'' \<notin> set (Base path)
         \<and> map_of (fileInfoValues W path data) ''type'' = Some [DetectContentType W data]"
  using assms Base_no_separator [of path]
  by (simp add: getFileInfo_run getFileInfo_part000_run inspectionEvents_def fileInfoValues_def
      decimalValue_Sprint)

theorem getFileInfo_metadata_witness:
  "os_Open exampleWorld [] ''dir/hello.txt'' = None
   \<and> file_read exampleWorld [FileOpen ''dir/hello.txt'' None] ''dir/hello.txt''
       = (''0123456789'', None)
   \<and> fst (getFileInfo_part000 exampleWorld [] ''dir/hello.txt'')
       = (Some [(''type'', [''text/plain; charset=utf-8'']), (''name'', [''hello.txt'']),
                (''size'', [''10''])], Some ''0123456789'', None)
   \<and> fst (getFileInfo exampleWorld [] ''dir/hello.txt'')
       = (Some [(''type'', [''text/plain; charset=utf-8'']), (''name'', [''hello.txt'']),
                (''size'', [''10''])], None)
   \<and> decimalValue ''10'' = length ''0123456789''
   \<and> CHR ''/'' \<notin> set ''hello.txt''"
proof -
  have a: "os_Open exampleWorld [] ''dir/hello.txt'' = None"
    by (simp add: exampleWorld_def)
  have b: "file_read exampleWorld ([] @ [FileOpen ''dir/hello.txt'' None]) ''dir/hello.txt''
       = (''0123456789'', None)"
    by (simp add: exampleWorld_def)
  have c: "\<exists>c \<in> set ''dir/hello.txt''. c \<noteq> CHR ''/''"
    by simp
  have v: "fileInfoValues exampleWorld ''dir/hello.txt'' ''0123456789''
      = [(''type'', [''text/plain; charset=utf-8'']), (''name'', [''hello.txt'']),
         (''size'', [''10''])]"
    by (simp add: fileInfoValues_def exampleWorld_def Base_example Sprint_ten_Suc)
  from getFileInfo_metadata [OF a b c] show ?thesis
    using a b by (simp add: v Sprint_ten_Suc Base_example)
qed

text \<open>
  Claim C6: the policy request goes to the base team URL, then \<open>/\<close>, the team identifier
  and \<open>/attachments/policies\<close>, with content type \<open>application/x-www-form-urlencoded\<close>
  and the URL-encoded values as its body; for the values of \<open>getFileInfo\<close> the body has
  exactly the keys \<open>name\<close>, \<open>size\<close> and \<open>type\<close>. \<open>postAttachmentPolicy\<close> is the same in
  both files; that the request is a POST is the contract of the client's \<open>post\<close>.
\<close>

theorem policy_request_shape:
  "(\<exists>res rest.
      snd (postAttachmentPolicy W h teamName values) =
        PolicyPost (TeamURL W @ ''/'' @ teamName @ ''/attachments/policies'')
          ''application/x-www-form-urlencoded'' (Encode values) res # rest
      \<and> requests rest = [])
   \<and> Encode (fileInfoValues W path data) =
       ''name='' @ QueryEscape (Base path) @ ''&size='' @ QueryEscape (Sprint (length data))
         @ ''&type='' @ QueryEscape (DetectContentType W data)"
  by (simp add: postAttachmentPolicy_run policyURL_def PolicyBodyType_def requests_def
      Encode_fileInfoValues split: sum.splits)

theorem policy_request_shape_witness:
  "snd (postAttachmentPolicy exampleWorld [] ''acme''
          (fileInfoValues exampleWorld ''dir/hello.txt'' ''0123456789''))
     = [PolicyPost ''/v1/teams/acme/attachments/policies'' ''application/x-www-form-urlencoded''
          ''name=hello.txt&size=10&type=text%2Fplain%3B+charset%3Dutf-8'' (Inr examplePolicy),
        PolicyBodyClose]"
proof -
  have e: "Encode (fileInfoValues exampleWorld ''dir/hello.txt'' ''0123456789'')
      = ''name=hello.txt&size=10&type=text%2Fplain%3B+charset%3Dutf-8''"
    using policy_request_shape [of exampleWorld "[]" "''acme''" "[]" "''dir/hello.txt''" "''0123456789''"]
    by (simp add: exampleWorld_def Base_example Sprint_ten_Suc QueryEscape_def escapeByte_def
        shouldEscape_def isAlnum_def upperhex_def)
  have u: "policyURL exampleWorld ''acme'' = ''/v1/teams/acme/attachments/policies''"
    by (simp add: policyURL_def exampleWorld_def)
  have cp: "\<And>a b c. client_post exampleWorld [] a b c = Inr examplePolicy"
    by (simp add: exampleWorld_def)
  show ?thesis
    by (simp add: postAttachmentPolicy_run e u cp PolicyBodyType_def)
qed

text \<open>
  Claim C7, as stated, fails: every error would carry the name of the stage and its input,
  the team identifier among them for a policy failure and the endpoint for an upload
  failure. In \<^verbatim>\<open>src/unnamed/part_000\<close> the error of a failed policy request for team
  \<open>acme\<close> does not hold \<open>acme\<close>, and the error of a 403 does not hold the endpoint; in
  \<^verbatim>\<open>src/esa/attachment.go\<close> the errors are the underlying errors, bare.
\<close>

theorem errors_not_enriched_as_claimed_counterexample:
  "fst (UploadAttachmentFile_part000 worldPolicyFails [] ''acme'' ''dir/hello.txt'') =
     ('''', Some (''postAttachmentPolicy Failed (values: ''
                  @ ''map[name:[hello.txt] size:[10] type:[text/plain; charset=utf-8]]''
                  @ ''): 404 Not Found'' @ LF))
   \<and> \<not> sublist ''acme''
         (''postAttachmentPolicy Failed (values: ''
            @ ''map[name:[hello.txt] size:[10] type:[text/plain; charset=utf-8]]''
            @ ''): 404 Not Found'' @ LF)
   \<and> fst (UploadAttachmentFile_part000 worldForbidden [] ''acme'' ''dir/hello.txt'') =
       ('''', Some (''HTTP status is not http.StatusNoContent: Forbidden'' @ LF))
   \<and> Endpoint (Attachment examplePolicy) = ''http://x/ep''
   \<and> \<not> sublist ''http://x/ep'' (''HTTP status is not http.StatusNoContent: Forbidden'' @ LF)
   \<and> fst (UploadAttachmentFile worldPolicyFails [] ''acme'' ''dir/hello.txt'') =
       ('''', Some ''404 Not Found'')
   \<and> fst (UploadAttachmentFile worldOpenFails [] ''acme'' ''dir/hello.txt'') =
       ('''', Some ''open dir/hello.txt: no such file or directory'')"
  using policy_failure_message_lacks_team status_message_lacks_endpoint
  by (simp add: worldPolicyFails_run_part000 worldForbidden_run_part000 worldPolicyFails_run
      worldOpenFails_run examplePolicy_def)

text \<open>
  Claim C7, amended: every error \<^verbatim>\<open>src/unnamed/part_000\<close> returns is the underlying error
  wrapped by \<open>fmt.Errorf\<close> behind the name of the call that failed: \<open>getFileInfo Failed\<close>
  with the path, \<open>postAttachmentPolicy Failed\<close> with the request values (not the team
  identifier), \<open>Post Failed\<close> with the endpoint, or, for a status other than 204, a fixed
  text with the status text (not the endpoint). Every error \<^verbatim>\<open>src/esa/attachment.go\<close>
  returns is the underlying error itself: the error of an open, of a read, of the policy
  request or of the POST, or the status text.
\<close>

theorem errors_enriched_by_stage:
  "(snd (fst (UploadAttachmentFile_part000 W h teamName path)) = Some msg \<longrightarrow>
      (\<exists>e. snd (snd (fst (getFileInfo_part000 W h path))) = Some e
           \<and> msg = ''getFileInfo Failed (path: '' @ path @ ''): '' @ e @ LF)
      \<or> (\<exists>u t b e data.
            PolicyPost u t b (Inl e) \<in> set (snd (UploadAttachmentFile_part000 W h teamName path))
            \<and> FileRead path data None \<in> set (snd (UploadAttachmentFile_part000 W h teamName path))
            \<and> msg = ''postAttachmentPolicy Failed (values: map[name:['' @ Base path
                       @ ''] size:['' @ Sprint (length data)
                       @ ''] type:['' @ DetectContentType W data @ '']]): '' @ e @ LF)
      \<or> (\<exists>endpoint ctype body e.
            UploadPost endpoint ctype body (Inl e)
              \<in> set (snd (UploadAttachmentFile_part000 W h teamName path))
            \<and> msg = ''Post Failed (endpoint: '' @ endpoint @ ''): '' @ e @ LF)
      \<or> (\<exists>endpoint ctype body code.
            UploadPost endpoint ctype body (Inr code)
              \<in> set (snd (UploadAttachmentFile_part000 W h teamName path))
            \<and> code \<noteq> 204
            \<and> msg = ''HTTP status is not http.StatusNoContent: '' @ StatusText code @ LF))
   \<and> (snd (fst (UploadAttachmentFile W h teamName path)) = Some msg \<longrightarrow>
      (\<exists>p. FileOpen p (Some msg) \<in> set (snd (UploadAttachmentFile W h teamName path)))
      \<or> (\<exists>p d. FileRead p d (Some msg) \<in> set (snd (UploadAttachmentFile W h teamName path)))
      \<or> (\<exists>u t b. PolicyPost u t b (Inl msg) \<in> set (snd (UploadAttachmentFile W h teamName path)))
      \<or> (\<exists>endpoint ctype body.
            UploadPost endpoint ctype body (Inl msg)
              \<in> set (snd (UploadAttachmentFile W h teamName path)))
      \<or> (\<exists>endpoint ctype body code.
            UploadPost endpoint ctype body (Inr code)
              \<in> set (snd (UploadAttachmentFile W h teamName path))
            \<and> code \<noteq> 204 \<and> msg = StatusText code))"
proof (intro conjI impI)
  assume "snd (fst (UploadAttachmentFile_part000 W h teamName path)) = Some msg"
  then show "(\<exists>e. snd (snd (fst (getFileInfo_part000 W h path))) = Some e
           \<and> msg = ''getFileInfo Failed (path: '' @ path @ ''): '' @ e @ LF)
      \<or> (\<exists>u t b e data.
            PolicyPost u t b (Inl e) \<in> set (snd (UploadAttachmentFile_part000 W h teamName path))
            \<and> FileRead path data None \<in> set (snd (UploadAttachmentFile_part000 W h teamName path))
            \<and> msg = ''postAttachmentPolicy Failed (values: map[name:['' @ Base path
                       @ ''] size:['' @ Sprint (length data)
                       @ ''] type:['' @ DetectContentType W data @ '']]): '' @ e @ LF)
      \<or> (\<exists>endpoint ctype body e.
            UploadPost endpoint ctype body (Inl e)
              \<in> set (snd (UploadAttachmentFile_part000 W h teamName path))
            \<and> msg = ''Post Failed (endpoint: '' @ endpoint @ ''): '' @ e @ LF)
      \<or> (\<exists>endpoint ctype body code.
            UploadPost endpoint ctype body (Inr code)
              \<in> set (snd (UploadAttachmentFile_part000 W h teamName path))
            \<and> code \<noteq> 204
            \<and> msg = ''HTTP status is not http.StatusNoContent: '' @ StatusText code @ LF)"
    by (auto simp: UploadAttachmentFile_part000_run getFileInfo_part000_run run_simps
        fmtValues_fileInfoValues
        split: option.splits prod.splits sum.splits if_splits)
next
  assume "snd (fst (UploadAttachmentFile W h teamName path)) = Some msg"
  then show "(\<exists>p. FileOpen p (Some msg) \<in> set (snd (UploadAttachmentFile W h teamName path)))
      \<or> (\<exists>p d. FileRead p d (Some msg) \<in> set (snd (UploadAttachmentFile W h teamName path)))
      \<or> (\<exists>u t b. PolicyPost u t b (Inl msg) \<in> set (snd (UploadAttachmentFile W h teamName path)))
      \<or> (\<exists>endpoint ctype body.
            UploadPost endpoint ctype body (Inl msg)
              \<in> set (snd (UploadAttachmentFile W h teamName path)))
      \<or> (\<exists>endpoint ctype body code.
            UploadPost endpoint ctype body (Inr code)
              \<in> set (snd (UploadAttachmentFile W h teamName path))
            \<and> code \<noteq> 204 \<and> msg = StatusText code)"
    by (auto simp: UploadAttachmentFile_run run_simps
        split: option.splits prod.splits sum.splits if_splits)
qed

theorem errors_enriched_by_stage_witness:
  "snd (fst (UploadAttachmentFile_part000 worldPolicyFails [] ''acme'' ''dir/hello.txt'')) =
     Some (''postAttachmentPolicy Failed (values: ''
           @ ''map[name:[hello.txt] size:[10] type:[text/plain; charset=utf-8]]''
           @ ''): 404 Not Found'' @ LF)
   \<and> ((\<exists>e. snd (snd (fst (getFileInfo_part000 worldPolicyFails [] ''dir/hello.txt''))) = Some e
           \<and> (''postAttachmentPolicy Failed (values: ''
           @ ''map[name:[hello.txt] size:[10] type:[text/plain; charset=utf-8]]''
           @ ''): 404 Not Found'' @ LF) = ''getFileInfo Failed (path: '' @ ''dir/hello.txt'' @ ''): '' @ e @ LF)
      \<or> (\<exists>u t b e data.
            PolicyPost u t b (Inl e) \<in> set (snd (UploadAttachmentFile_part000 worldPolicyFails [] ''acme'' ''dir/hello.txt''))
            \<and> FileRead ''dir/hello.txt'' data None \<in> set (snd (UploadAttachmentFile_part000 worldPolicyFails [] ''acme'' ''dir/hello.txt''))
            \<and> (''postAttachmentPolicy Failed (values: ''
           @ ''map[name:[hello.txt] size:[10] type:[text/plain; charset=utf-8]]''
           @ ''): 404 Not Found'' @ LF) = ''postAttachmentPolicy Failed (values: map[name:['' @ Base ''dir/hello.txt''
                       @ ''] size:['' @ Sprint (length data)
                       @ ''] type:['' @ DetectContentType worldPolicyFails data @ '']]): '' @ e @ LF)
      \<or> (\<exists>endpoint ctype body e.
            UploadPost endpoint ctype body (Inl e)
              \<in> set (snd (UploadAttachmentFile_part000 worldPolicyFails [] ''acme'' ''dir/hello.txt''))
            \<and> (''postAttachmentPolicy Failed (values: ''
           @ ''map[name:[hello.txt] size:[10] type:[text/plain; charset=utf-8]]''
           @ ''): 404 Not Found'' @ LF) = ''Post Failed (endpoint: '' @ endpoint @ ''): '' @ e @ LF)
      \<or> (\<exists>endpoint ctype body code.
            UploadPost endpoint ctype body (Inr code)
              \<in> set (snd (UploadAttachmentFile_part000 worldPolicyFails [] ''acme'' ''dir/hello.txt''))
            \<and> code \<noteq> 204
            \<and> (''postAttachmentPolicy Failed (values: ''
           @ ''map[name:[hello.txt] size:[10] type:[text/plain; charset=utf-8]]''
           @ ''): 404 Not Found'' @ LF) = ''HTTP status is not http.StatusNoContent: '' @ StatusText code @ LF))
   \<and> snd (fst (UploadAttachmentFile worldPolicyFails [] ''acme'' ''dir/hello.txt'')) = Some ''404 Not Found''
   \<and> ((\<exists>p. FileOpen p (Some ''404 Not Found'') \<in> set (snd (UploadAttachmentFile worldPolicyFails [] ''acme'' ''dir/hello.txt'')))
      \<or> (\<exists>p d. FileRead p d (Some ''404 Not Found'') \<in> set (snd (UploadAttachmentFile worldPolicyFails [] ''acme'' ''dir/hello.txt'')))
      \<or> (\<exists>u t b. PolicyPost u t b (Inl ''404 Not Found'') \<in> set (snd (UploadAttachmentFile worldPolicyFails [] ''acme'' ''dir/hello.txt'')))
      \<or> (\<exists>endpoint ctype body.
            UploadPost endpoint ctype body (Inl ''404 Not Found'')
              \<in> set (snd (UploadAttachmentFile worldPolicyFails [] ''acme'' ''dir/hello.txt'')))
      \<or> (\<exists>endpoint ctype body code.
            UploadPost endpoint ctype body (Inr code)
              \<in> set (snd (UploadAttachmentFile worldPolicyFails [] ''acme'' ''dir/hello.txt''))
            \<and> code \<noteq> 204 \<and> ''404 Not Found'' = StatusText code))"
proof -
  have a: "snd (fst (UploadAttachmentFile_part000 worldPolicyFails [] ''acme'' ''dir/hello.txt'')) =
     Some (''postAttachmentPolicy Failed (values: ''
           @ ''map[name:[hello.txt] size:[10] type:[text/plain; charset=utf-8]]''
           @ ''): 404 Not Found'' @ LF)"
    by (simp add: worldPolicyFails_run_part000)
  have b: "snd (fst (UploadAttachmentFile worldPolicyFails [] ''acme'' ''dir/hello.txt'')) = Some ''404 Not Found''"
    by (simp add: worldPolicyFails_run)
  have c: "((\<exists>e. snd (snd (fst (getFileInfo_part000 worldPolicyFails [] ''dir/hello.txt''))) = Some e
           \<and> (''postAttachmentPolicy Failed (values: ''
           @ ''map[name:[hello.txt] size:[10] type:[text/plain; charset=utf-8]]''
           @ ''): 404 Not Found'' @ LF) = ''getFileInfo Failed (path: '' @ ''dir/hello.txt'' @ ''): '' @ e @ LF)
      \<or> (\<exists>u t b e data.
            PolicyPost u t b (Inl e) \<in> set (snd (UploadAttachmentFile_part000 worldPolicyFails [] ''acme'' ''dir/hello.txt''))
            \<and> FileRead ''dir/hello.txt'' data None \<in> set (snd (UploadAttachmentFile_part000 worldPolicyFails [] ''acme'' ''dir/hello.txt''))
            \<and> (''postAttachmentPolicy Failed (values: ''
           @ ''map[name:[hello.txt] size:[10] type:[text/plain; charset=utf-8]]''
           @ ''): 404 Not Found'' @ LF) = ''postAttachmentPolicy Failed (values: map[name:['' @ Base ''dir/hello.txt''
                       @ ''] size:['' @ Sprint (length data)
                       @ ''] type:['' @ DetectContentType worldPolicyFails data @ '']]): '' @ e @ LF)
      \<or> (\<exists>endpoint ctype body e.
            UploadPost endpoint ctype body (Inl e)
              \<in> set (snd (UploadAttachmentFile_part000 worldPolicyFails [] ''acme'' ''dir/hello.txt''))
            \<and> (''postAttachmentPolicy Failed (values: ''
           @ ''map[name:[hello.txt] size:[10] type:[text/plain; charset=utf-8]]''
           @ ''): 404 Not Found'' @ LF) = ''Post Failed (endpoint: '' @ endpoint @ ''): '' @ e @ LF)
      \<or> (\<exists>endpoint ctype body code.
            UploadPost endpoint ctype body (Inr code)
              \<in> set (snd (UploadAttachmentFile_part000 worldPolicyFails [] ''acme'' ''dir/hello.txt''))
            \<and> code \<noteq> 204
            \<and> (''postAttachmentPolicy Failed (values: ''
           @ ''map[name:[hello.txt] size:[10] type:[text/plain; charset=utf-8]]''
           @ ''): 404 Not Found'' @ LF) = ''HTTP status is not http.StatusNoContent: '' @ StatusText code @ LF))"
    using errors_enriched_by_stage
      [of worldPolicyFails "[]" "''acme''" "''dir/hello.txt''"
          "(''postAttachmentPolicy Failed (values: ''
           @ ''map[name:[hello.txt] size:[10] type:[text/plain; charset=utf-8]]''
           @ ''): 404 Not Found'' @ LF)",
       THEN conjunct1] a
    by (rule mp)
  have d: "((\<exists>p. FileOpen p (Some ''404 Not Found'') \<in> set (snd (UploadAttachmentFile worldPolicyFails [] ''acme'' ''dir/hello.txt'')))
      \<or> (\<exists>p d. FileRead p d (Some ''404 Not Found'') \<in> set (snd (UploadAttachmentFile worldPolicyFails [] ''acme'' ''dir/hello.txt'')))
      \<or> (\<exists>u t b. PolicyPost u t b (Inl ''404 Not Found'') \<in> set (snd (UploadAttachmentFile worldPolicyFails [] ''acme'' ''dir/hello.txt'')))
      \<or> (\<exists>endpoint ctype body.
            UploadPost endpoint ctype body (Inl ''404 Not Found'')
              \<in> set (snd (UploadAttachmentFile worldPolicyFails [] ''acme'' ''dir/hello.txt'')))
      \<or> (\<exists>endpoint ctype body code.
            UploadPost endpoint ctype body (Inr code)
              \<in> set (snd (UploadAttachmentFile worldPolicyFails [] ''acme'' ''dir/hello.txt''))
            \<and> code \<noteq> 204 \<and> ''404 Not Found'' = StatusText code))"
    using errors_enriched_by_stage
      [of worldPolicyFails "[]" "''acme''" "''dir/hello.txt''" "''404 Not Found''",
       THEN conjunct2] b
    by (rule mp)
  from a c b d show ?thesis by (intro conjI)
qed

text \<open>
  Claim C8: when the path cannot be opened, or the read stops with an error (bytes may
  have been read before it), \<open>getFileInfo\<close> returns that error and nil for the values
  (and for the bytes, in \<^verbatim>\<open>src/unnamed/part_000\<close>). Both files.
\<close>

theorem getFileInfo_failure_returns_no_metadata:
  assumes "os_Open W h path = Some e
           \<or> (os_Open W h path = None
              \<and> file_read W (h @ [FileOpen path None]) path = (partial, Some e))"
  shows "fst (getFileInfo W h path) = (None, Some e)
         \<and> fst (getFileInfo_part000 W h path) = (None, None, Some e)"
  using assms by (auto simp: getFileInfo_run getFileInfo_part000_run)

theorem getFileInfo_failure_returns_no_metadata_witness:
  "fst (getFileInfo worldOpenFails [] ''dir/hello.txt'')
     = (None, Some ''open dir/hello.txt: no such file or directory'')
   \<and> fst (getFileInfo_part000 worldOpenFails [] ''dir/hello.txt'')
     = (None, None, Some ''open dir/hello.txt: no such file or directory'')
   \<and> file_read worldReadFails [FileOpen ''dir/hello.txt'' None] ''dir/hello.txt''
     = (''01234'', Some ''read dir/hello.txt: input/output error'')
   \<and> fst (getFileInfo worldReadFails [] ''dir/hello.txt'')
     = (None, Some ''read dir/hello.txt: input/output error'')
   \<and> fst (getFileInfo_part000 worldReadFails [] ''dir/hello.txt'')
     = (None, None, Some ''read dir/hello.txt: input/output error'')"
proof -
  have a: "os_Open worldOpenFails [] ''dir/hello.txt''
             = Some ''open dir/hello.txt: no such file or directory''"
    by (simp add: worldOpenFails_def exampleWorld_def)
  have b: "os_Open worldReadFails [] ''dir/hello.txt'' = None"
    by (simp add: worldReadFails_def exampleWorld_def)
  have c: "file_read worldReadFails ([] @ [FileOpen ''dir/hello.txt'' None]) ''dir/hello.txt''
             = (''01234'', Some ''read dir/hello.txt: input/output error'')"
    by (simp add: worldReadFails_def exampleWorld_def)
  from a have "fst (getFileInfo worldOpenFails [] ''dir/hello.txt'')
       = (None, Some ''open dir/hello.txt: no such file or directory'')
     \<and> fst (getFileInfo_part000 worldOpenFails [] ''dir/hello.txt'')
       = (None, None, Some ''open dir/hello.txt: no such file or directory'')"
    by (intro getFileInfo_failure_returns_no_metadata) simp
  moreover from b c have "fst (getFileInfo worldReadFails [] ''dir/hello.txt'')
       = (None, Some ''read dir/hello.txt: input/output error'')
     \<and> fst (getFileInfo_part000 worldReadFails [] ''dir/hello.txt'')
       = (None, None, Some ''read dir/hello.txt: input/output error'')"
    by (intro getFileInfo_failure_returns_no_metadata [where partial = "''01234''"]) simp
  ultimately show ?thesis using c by simp
qed

text \<open>
  Claim C9: the bytes in the file part are the bytes whose length the policy request
  reported as \<open>size\<close>. \<^verbatim>\<open>src/unnamed/part_000\<close> does this
  (\<open>part000_uploads_inspected_bytes\<close>: one read, the same bytes in both requests).
  \<^verbatim>\<open>src/esa/attachment.go\<close> opens and reads the file again after the policy request: in
  a world where the file is rewritten in between, it reports \<open>size=10\<close> and uploads the
  nine bytes \<open>rewritten\<close>, and returns success; in the same world
  \<^verbatim>\<open>src/unnamed/part_000\<close> uploads the ten bytes it reported.
\<close>

theorem attachment_go_uploads_second_read:
  "snd (UploadAttachmentFile worldFileChanges [] ''acme'' ''dir/hello.txt'') =
      [FileOpen ''dir/hello.txt'' None, FileRead ''dir/hello.txt'' ''0123456789'' None,
       FileClose ''dir/hello.txt'',
       PolicyPost ''/v1/teams/acme/attachments/policies'' ''application/x-www-form-urlencoded''
         ''name=hello.txt&size=10&type=text%2Fplain%3B+charset%3Dutf-8'' (Inr examplePolicy),
       PolicyBodyClose,
       FileOpen ''dir/hello.txt'' None, FileRead ''dir/hello.txt'' ''rewritten'' None,
       UploadPost ''http://x/ep''
         ''multipart/form-data; boundary=0f1e2d3c4b5a69788796a5b4c3d2e1f00f1e2d3c4b5a69788796a5b4c3d2''
         (multipartBody exampleBoundary
            (policyParts exampleForm @ [filePart ''file'' ''hello.txt'' ''rewritten'']))
         (Inr 204),
       UploadBodyClose, FileClose ''dir/hello.txt'']
   \<and> fst (UploadAttachmentFile worldFileChanges [] ''acme'' ''dir/hello.txt'')
       = (''http://x/pub/hello.txt'', None)
   \<and> length ''rewritten'' = (9::nat)
   \<and> snd (UploadAttachmentFile_part000 worldFileChanges [] ''acme'' ''dir/hello.txt'') ! 5 =
       UploadPost ''http://x/ep''
         ''multipart/form-data; boundary=0f1e2d3c4b5a69788796a5b4c3d2e1f00f1e2d3c4b5a69788796a5b4c3d2''
         (encodeParts exampleBoundary
            (policyParts exampleForm @ [filePart ''file'' ''hello.txt'' ''0123456789'']))
         (Inr 204)"
  by (simp add: worldFileChanges_run worldFileChanges_run_part000)

text \<open>
  Claim C10: whenever the upload returns an error, the URL it returns is the empty string.
  Both files.
\<close>

theorem error_comes_with_empty_url:
  "(snd (fst (UploadAttachmentFile W h teamName path)) \<noteq> None
      \<longrightarrow> fst (fst (UploadAttachmentFile W h teamName path)) = '''')
   \<and> (snd (fst (UploadAttachmentFile_part000 W h teamName path)) \<noteq> None
      \<longrightarrow> fst (fst (UploadAttachmentFile_part000 W h teamName path)) = '''')"
  by (intro conjI impI; (elim conjE)?)
    (auto simp: UploadAttachmentFile_run UploadAttachmentFile_part000_run run_simps
      split: option.splits prod.splits sum.splits if_splits)

theorem error_comes_with_empty_url_witness:
  "snd (fst (UploadAttachmentFile worldForbidden [] ''acme'' ''dir/hello.txt'')) \<noteq> None
   \<and> fst (fst (UploadAttachmentFile worldForbidden [] ''acme'' ''dir/hello.txt'')) = ''''
   \<and> snd (fst (UploadAttachmentFile_part000 worldOpenFails [] ''acme'' ''dir/hello.txt'')) \<noteq> None
   \<and> fst (fst (UploadAttachmentFile_part000 worldOpenFails [] ''acme'' ''dir/hello.txt'')) = ''''"
proof -
  have a: "snd (fst (UploadAttachmentFile worldForbidden [] ''acme'' ''dir/hello.txt'')) \<noteq> None"
    by (simp add: worldForbidden_run)
  have b: "snd (fst (UploadAttachmentFile_part000 worldOpenFails [] ''acme'' ''dir/hello.txt''))
             \<noteq> None"
    by (simp add: worldOpenFails_run_part000)
  from a b show ?thesis
    using error_comes_with_empty_url [of worldForbidden "[]" "''acme''" "''dir/hello.txt''"]
      error_comes_with_empty_url [of worldOpenFails "[]" "''acme''" "''dir/hello.txt''"]
    by blast
qed

end
